theory Spec2Isabelle
  imports Main
begin

section \<open>Data exchanged with the model client and the tool manager\<close>

text \<open>
  The keyword arguments of a tool call (\<^verbatim>\<open>content_block.input\<close>), as an association
  list of argument name and value.
\<close>

type_synonym tool_input = "(string \<times> string) list"

text \<open>
  A content block of a model response. The code reads the attributes \<^verbatim>\<open>type\<close>,
  \<^verbatim>\<open>id\<close>, \<^verbatim>\<open>name\<close>, \<^verbatim>\<open>input\<close> and \<^verbatim>\<open>text\<close>. The blocks come from the
  client library, where a tool-use block carries no \<^verbatim>\<open>text\<close> attribute: \<open>block_text\<close> is
  \<open>None\<close> for a block without it, and reading it then raises AttributeError.
\<close>

record content_block =
  block_type :: string
  block_text :: "string option"
  block_id :: string
  name :: string
  input :: tool_input

record response =
  stop_reason :: string
  content :: "content_block list"

text \<open>The dictionary \<^verbatim>\<open>{"type": "tool_result", "tool_use_id": ..., "content": ...}\<close>.\<close>

record tool_result =
  result_type :: string
  tool_use_id :: string
  result_content :: string

text \<open>
  A conversation turn \<^verbatim>\<open>{"role": ..., "content": ...}\<close>; its content is the query
  string, the content list of a response, or a list of tool results.
\<close>

datatype turn_content =
  Text string
| Blocks "content_block list"
| ToolResults "tool_result list"

record message =
  role :: string
  turn_content :: turn_content

record tool_def =
  tool_name :: string
  description :: string
  input_schema :: string

text \<open>
  The request parameters. \<^verbatim>\<open>self.base_params\<close> holds the first three keys; the
  dictionaries \<^verbatim>\<open>api_params\<close>, \<^verbatim>\<open>next_params\<close> and \<^verbatim>\<open>final_params\<close> add
  \<^verbatim>\<open>messages\<close> and \<^verbatim>\<open>system\<close>, and \<^verbatim>\<open>tools\<close> and \<^verbatim>\<open>tool_choice\<close> when they
  are present (\<open>None\<close>: the key is absent). In a dictionary of the program the
  messages are a reference to a list object (\<open>'m\<close> is an address); in a request as the
  client receives it they are the contents of that list at the time of the call.
\<close>

record params_base =
  model :: string
  temperature :: int
  max_tokens :: int

record 'm api_params = params_base +
  messages :: 'm
  system :: string
  tools :: "tool_def list option"
  tool_choice :: "(string \<times> string) list option"

type_synonym addr = nat

type_synonym request = "message list api_params"

section \<open>Effects: the store of message lists, the collaborators and their call logs\<close>

text \<open>
  Both handlers copy a message list and append to the copy, so message lists live in a
  store: \<open>heap\<close> maps the address of a list object to its contents and \<open>next_addr\<close> is
  the next unused address. \<open>world\<close> is the state of the collaborators (the model
  client and the tool manager), which the program cannot see. \<open>api_log\<close> and
  \<open>tool_log\<close> record every call of \<^verbatim>\<open>client.messages.create\<close> and of
  \<^verbatim>\<open>tool_manager.execute_tool\<close> in order, whether the call returned or raised.
\<close>

record 'w state =
  heap :: "addr \<Rightarrow> message list"
  next_addr :: addr
  world :: 'w
  api_log :: "request list"
  tool_log :: "(string \<times> tool_input) list"

text \<open>
  A collaborator returns \<open>Inr\<close> of its value, or \<open>Inl m\<close> when it raises an
  \<^verbatim>\<open>Exception\<close> \<open>e\<close> with \<^verbatim>\<open>str(e)\<close> = \<open>m\<close>, and the next state of the world.
  Every exception of a collaborator is an instance of \<^verbatim>\<open>Exception\<close>, which the
  handlers of the program catch; interrupts of the interpreter are not modelled. The
  client reads the messages of a request and does not write to the list they come from.
\<close>

type_synonym 'w create_fn = "request \<Rightarrow> 'w \<Rightarrow> (string + response) \<times> 'w"

type_synonym 'w execute_tool_fn = "string \<Rightarrow> tool_input \<Rightarrow> 'w \<Rightarrow> (string + string) \<times> 'w"

text \<open>
  The exceptions that leave a function of the program: the two the code itself can
  raise on a response, and an exception of a collaborator that is not caught.
\<close>

datatype exn = IndexError | AttributeError | Raised string

record 'w AIGenerator =
  client :: "'w create_fn"
  self_model :: string
  base_params :: params_base

definition SYSTEM_PROMPT :: string where
  \<open>SYSTEM_PROMPT =
   '' You are an AI assistant specialized in course materials and educational content with access to comprehensive tools for course information.\<newline>'' @
   ''\<newline>'' @
   ''Available Tools:\<newline>'' @
   ''1. **search_course_content**: For searching specific course content and materials\<newline>'' @
   ''2. **get_course_outline**: For getting course structure, including title, course link, and complete lesson list with numbers and titles\<newline>'' @
   ''\<newline>'' @
   ''Tool Usage Guidelines:\<newline>'' @
   ''- Use **search_course_content** for questions about specific course content or detailed educational materials\<newline>'' @
   ''- Use **get_course_outline** for questions about course structure, lesson lists, course overview, or syllabus information\<newline>'' @
   ''- **Up to 2 tool call rounds per query maximum** - you can make additional tool calls after seeing initial results\<newline>'' @
   ''- Synthesize tool results into accurate, fact-based responses\<newline>'' @
   ''- If tools yield no results, state this clearly without offering alternatives\<newline>'' @
   ''\<newline>'' @
   ''Sequential Tool Strategy:\<newline>'' @
   ''- First round: Use tools to gather initial information\<newline>'' @
   ''- Second round (optional): Refine search or gather additional details based on first round results\<newline>'' @
   ''- Consider whether additional tool calls will improve your response quality\<newline>'' @
   ''- Examples: Get course outline first, then search specific lessons; Search one topic, then compare with another\<newline>'' @
   ''\<newline>'' @
   ''Response Protocol:\<newline>'' @
   ''- **General knowledge questions**: Answer using existing knowledge without searching\<newline>'' @
   ''- **Course-specific questions**: Search first, then answer\<newline>'' @
   ''- **No meta-commentary**:\<newline>'' @
   '' - Provide direct answers only '' @ [CHR 0xE2, CHR 0x80, CHR 0x94] @ '' no reasoning process, search explanations, or question-type analysis\<newline>'' @
   '' - Do not mention "based on the search results"\<newline>'' @
   ''\<newline>'' @
   ''\<newline>'' @
   ''All responses must be:\<newline>'' @
   ''1. **Brief, Concise and focused** - Get to the point quickly\<newline>'' @
   ''2. **Educational** - Maintain instructional value\<newline>'' @
   ''3. **Clear** - Use accessible language\<newline>'' @
   ''4. **Example-supported** - Include relevant examples when they aid understanding\<newline>'' @
   ''Provide only the direct answer to what was asked.\<newline>''\<close>

definition init :: "'w create_fn \<Rightarrow> string \<Rightarrow> 'w AIGenerator" where
  "init anthropic_client model_name =
     \<lparr>client = anthropic_client, self_model = model_name,
      base_params = \<lparr>model = model_name, temperature = 0, max_tokens = 800\<rparr>\<rparr>"

definition list_new :: "message list \<Rightarrow> 'w state \<Rightarrow> addr \<times> 'w state" where
  "list_new ms s =
     (next_addr s, s\<lparr>heap := (heap s)(next_addr s := ms), next_addr := Suc (next_addr s)\<rparr>)"

definition list_copy :: "addr \<Rightarrow> 'w state \<Rightarrow> addr \<times> 'w state" where
  "list_copy a s = list_new (heap s a) s"

definition list_append :: "addr \<Rightarrow> message \<Rightarrow> 'w state \<Rightarrow> 'w state" where
  "list_append a m s = s\<lparr>heap := (heap s)(a := heap s a @ [m])\<rparr>"

definition resolve :: "(addr \<Rightarrow> message list) \<Rightarrow> addr api_params \<Rightarrow> request" where
  "resolve h p =
     \<lparr>model = model p, temperature = temperature p, max_tokens = max_tokens p,
      messages = h (messages p), system = system p, tools = tools p,
      tool_choice = tool_choice p\<rparr>"

definition messages_create ::
  "'w AIGenerator \<Rightarrow> addr api_params \<Rightarrow> 'w state \<Rightarrow> (string + response) \<times> 'w state" where
  "messages_create self p s =
     (let req = resolve (heap s) p in
      case client self req (world s) of
        (r, w') \<Rightarrow> (r, s\<lparr>world := w', api_log := api_log s @ [req]\<rparr>))"

definition execute_tool ::
  "'w execute_tool_fn \<Rightarrow> string \<Rightarrow> tool_input \<Rightarrow> 'w state \<Rightarrow> (string + string) \<times> 'w state" where
  "execute_tool tool_manager n kwargs s =
     (case tool_manager n kwargs (world s) of
        (r, w') \<Rightarrow> (r, s\<lparr>world := w', tool_log := tool_log s @ [(n, kwargs)]\<rparr>))"

section \<open>The response generator\<close>

text \<open>\<^verbatim>\<open>str(n)\<close> for an integer: the decimal digits, with a sign when negative.\<close>

definition digit :: "nat \<Rightarrow> char" where
  "digit d = ''0123456789'' ! (d mod 10)"

function str_nat :: "nat \<Rightarrow> string" where
  "str_nat n = (if n < 10 then [digit n] else str_nat (n div 10) @ [digit (n mod 10)])"
  by pat_completeness auto
termination
  by (relation "measure (\<lambda>n. n)") auto

declare str_nat.simps [simp del]

definition str_int :: "int \<Rightarrow> string" where
  "str_int i = (if i < 0 then ''-'' @ str_nat (nat (- i)) else str_nat (nat i))"

text \<open>
  \<^verbatim>\<open>block.text\<close> and \<^verbatim>\<open>response.content[0].text\<close>: the attribute may be absent and
  the list may be empty.
\<close>

definition attr_text :: "content_block \<Rightarrow> exn + string" where
  "attr_text b = (case block_text b of None \<Rightarrow> Inl AttributeError | Some t \<Rightarrow> Inr t)"

definition first_text :: "response \<Rightarrow> exn + string" where
  "first_text r = (case content r of [] \<Rightarrow> Inl IndexError | b # _ \<Rightarrow> attr_text b)"

text \<open>
  \<^verbatim>\<open>_execute_tools\<close>: the loop over \<^verbatim>\<open>response.content\<close>, with \<open>tool_results\<close> as
  the accumulator. An exception of \<^verbatim>\<open>execute_tool\<close> is caught for each block.
\<close>

fun execute_tools_loop ::
  "'w execute_tool_fn \<Rightarrow> content_block list \<Rightarrow> tool_result list \<Rightarrow> 'w state
     \<Rightarrow> tool_result list \<times> 'w state" where
  "execute_tools_loop tool_manager [] tool_results s = (tool_results, s)"
| "execute_tools_loop tool_manager (content_block # rest) tool_results s =
     (if block_type content_block = ''tool_use'' then
        (case execute_tool tool_manager (name content_block) (input content_block) s of
           (Inr tool_result, s') \<Rightarrow>
             execute_tools_loop tool_manager rest
               (tool_results @
                 [\<lparr>result_type = ''tool_result'', tool_use_id = block_id content_block,
                   result_content = tool_result\<rparr>]) s'
         | (Inl e, s') \<Rightarrow>
             execute_tools_loop tool_manager rest
               (tool_results @
                 [\<lparr>result_type = ''tool_result'', tool_use_id = block_id content_block,
                   result_content = ''Tool execution error: '' @ e\<rparr>]) s')
      else execute_tools_loop tool_manager rest tool_results s)"

definition execute_tools ::
  "response \<Rightarrow> 'w execute_tool_fn \<Rightarrow> 'w state \<Rightarrow> tool_result list \<times> 'w state" where
  "execute_tools r tool_manager s = execute_tools_loop tool_manager (content r) [] s"

text \<open>
  The \<^verbatim>\<open>while\<close> loop of \<^verbatim>\<open>_handle_sequential_tool_execution\<close>. \<open>params\<close> is the
  argument \<^verbatim>\<open>base_params\<close> of the handler and \<open>msgs\<close> the address of the handler's
  own list \<^verbatim>\<open>messages\<close>. The loop is left by the \<^verbatim>\<open>return\<close> in the
  exception handler (\<open>Return\<close>), or by its condition or the \<^verbatim>\<open>break\<close> with the
  current response (\<open>Exit\<close>); the final value of \<open>round_count\<close> is returned with it.
\<close>

datatype loop_exit = Return string | Exit response

function sequential_loop ::
  "'w AIGenerator \<Rightarrow> addr api_params \<Rightarrow> 'w execute_tool_fn \<Rightarrow> int \<Rightarrow> addr \<Rightarrow> response \<Rightarrow> int
     \<Rightarrow> 'w state \<Rightarrow> loop_exit \<times> int \<times> 'w state" where
  "sequential_loop self params tool_manager max_rounds msgs current_response round_count s =
     (if round_count < max_rounds \<and> stop_reason current_response = ''tool_use'' then
        (let s1 = list_append msgs
                    \<lparr>role = ''assistant'', turn_content = Blocks (content current_response)\<rparr> s
         in case execute_tools current_response tool_manager s1 of
              (tool_results, s2) \<Rightarrow>
                if tool_results = [] then (Exit current_response, round_count + 1, s2)
                else
                  (let s3 = list_append msgs
                              \<lparr>role = ''user'', turn_content = ToolResults tool_results\<rparr> s2;
                       next_params = params\<lparr>messages := msgs, system := system params\<rparr>
                   in case messages_create self next_params s3 of
                        (Inl e, s4) \<Rightarrow>
                          (Return (''Error in tool execution round '' @ str_int (round_count + 1)
                                     @ '': '' @ e),
                           round_count + 1, s4)
                      | (Inr next_response, s4) \<Rightarrow>
                          sequential_loop self params tool_manager max_rounds msgs next_response
                            (round_count + 1) s4))
      else (Exit current_response, round_count, s))"
  by pat_completeness auto
termination
  by (relation "measure (\<lambda>(self, params, tool_manager, max_rounds, msgs, r, round_count, s).
                  nat (max_rounds - round_count))") auto

declare sequential_loop.simps [simp del]

text \<open>The \<^verbatim>\<open>return\<close> after the loop.\<close>

definition final_return :: "response \<Rightarrow> exn + string" where
  "final_return current_response =
     (if content current_response \<noteq> [] then attr_text (hd (content current_response))
      else Inr ''No response generated'')"

text \<open>
  The handler from the head of its loop on: the loop, then the value the handler
  returns for the way the loop was left.
\<close>

definition loop_then_return ::
  "'w AIGenerator \<Rightarrow> addr api_params \<Rightarrow> 'w execute_tool_fn \<Rightarrow> int \<Rightarrow> addr \<Rightarrow> response \<Rightarrow> int
     \<Rightarrow> 'w state \<Rightarrow> (exn + string) \<times> 'w state" where
  "loop_then_return self params tool_manager max_rounds msgs current_response round_count s =
     (case sequential_loop self params tool_manager max_rounds msgs current_response
             round_count s of
        (Return str, _, s') \<Rightarrow> (Inr str, s')
      | (Exit r, _, s') \<Rightarrow> (final_return r, s'))"

definition handle_sequential_tool_execution ::
  "'w AIGenerator \<Rightarrow> response \<Rightarrow> addr api_params \<Rightarrow> 'w execute_tool_fn \<Rightarrow> int \<Rightarrow> 'w state
     \<Rightarrow> (exn + string) \<times> 'w state" where
  "handle_sequential_tool_execution self initial_response params tool_manager max_rounds s =
     (case list_copy (messages params) s of
        (msgs, s0) \<Rightarrow>
          loop_then_return self params tool_manager max_rounds msgs initial_response 0 s0)"

text \<open>\<^verbatim>\<open>_handle_tool_execution\<close>, the single-round handler.\<close>

definition handle_tool_execution ::
  "'w AIGenerator \<Rightarrow> response \<Rightarrow> addr api_params \<Rightarrow> 'w execute_tool_fn \<Rightarrow> 'w state
     \<Rightarrow> (exn + string) \<times> 'w state" where
  "handle_tool_execution self initial_response params tool_manager s =
     (case list_copy (messages params) s of
        (msgs, s0) \<Rightarrow>
          (let s1 = list_append msgs
                      \<lparr>role = ''assistant'', turn_content = Blocks (content initial_response)\<rparr> s0
           in case execute_tools initial_response tool_manager s1 of
                (tool_results, s2) \<Rightarrow>
                  (let s3 = (if tool_results \<noteq> [] then
                               list_append msgs
                                 \<lparr>role = ''user'', turn_content = ToolResults tool_results\<rparr> s2
                             else s2);
                       final_params =
                         \<lparr>model = model (base_params self),
                          temperature = temperature (base_params self),
                          max_tokens = max_tokens (base_params self),
                          messages = msgs, system = system params,
                          tools = None, tool_choice = None\<rparr>
                   in case messages_create self final_params s3 of
                        (Inl e, s4) \<Rightarrow> (Inl (Raised e), s4)
                      | (Inr final_response, s4) \<Rightarrow> (first_text final_response, s4))))"

text \<open>
  \<^verbatim>\<open>generate_response\<close>. \<open>conversation_history\<close>, \<open>tools\<close> and \<open>tool_manager\<close> are
  optional arguments; an empty string and an empty list are false in a condition, as
  \<open>None\<close> is. What \<^verbatim>\<open>print\<close> writes is not part of the state.
\<close>

definition system_content :: "string option \<Rightarrow> string" where
  "system_content conversation_history =
     (case conversation_history of
        Some h \<Rightarrow>
          (if h \<noteq> [] then
             SYSTEM_PROMPT @ ''\<newline>\<newline>Previous conversation:\<newline>'' @ h
           else SYSTEM_PROMPT)
      | None \<Rightarrow> SYSTEM_PROMPT)"

definition initial_params ::
  "'w AIGenerator \<Rightarrow> string option \<Rightarrow> tool_def list option \<Rightarrow> 'm \<Rightarrow> 'm api_params" where
  "initial_params self conversation_history tools_arg msgs =
     (let api_params =
            \<lparr>model = model (base_params self), temperature = temperature (base_params self),
             max_tokens = max_tokens (base_params self),
             messages = msgs, system = system_content conversation_history,
             tools = None, tool_choice = None\<rparr>
      in case tools_arg of
           Some ts \<Rightarrow>
             (if ts \<noteq> [] then
                api_params\<lparr>tools := Some ts, tool_choice := Some [(''type'', ''auto'')]\<rparr>
              else api_params)
         | None \<Rightarrow> api_params)"

definition generate_response ::
  "'w AIGenerator \<Rightarrow> string \<Rightarrow> string option \<Rightarrow> tool_def list option
     \<Rightarrow> 'w execute_tool_fn option \<Rightarrow> 'w state \<Rightarrow> (exn + string) \<times> 'w state" where
  "generate_response self query conversation_history tools_arg tool_manager s =
     (case list_new [\<lparr>role = ''user'', turn_content = Text query\<rparr>] s of
        (msgs, s0) \<Rightarrow>
          (let api_params = initial_params self conversation_history tools_arg msgs
           in case messages_create self api_params s0 of
                (Inl e, s1) \<Rightarrow> (Inl (Raised e), s1)
              | (Inr r, s1) \<Rightarrow>
                  (if stop_reason r = ''tool_use'' \<and> tool_manager \<noteq> None then
                     (case handle_sequential_tool_execution self r api_params
                             (the tool_manager) 2 s1 of
                        (Inr answer, s2) \<Rightarrow> (Inr answer, s2)
                      | (Inl e, s2) \<Rightarrow>
                          handle_tool_execution self r api_params (the tool_manager) s2)
                   else (first_text r, s1))))"

section \<open>What one result per tool call means\<close>

text \<open>
  The tool-use blocks of a response, the calls they ask for, and the outcome of each
  call when the blocks are executed one after the other from a state of the world.
\<close>

definition tool_use_blocks :: "response \<Rightarrow> content_block list" where
  "tool_use_blocks r = filter (\<lambda>b. block_type b = ''tool_use'') (content r)"

definition tool_calls :: "response \<Rightarrow> (string \<times> tool_input) list" where
  "tool_calls r = map (\<lambda>b. (name b, input b)) (tool_use_blocks r)"

fun tool_outcomes ::
  "'w execute_tool_fn \<Rightarrow> content_block list \<Rightarrow> 'w \<Rightarrow> (string + string) list" where
  "tool_outcomes tool_manager [] w = []"
| "tool_outcomes tool_manager (b # bs) w =
     (case tool_manager (name b) (input b) w of
        (outcome, w') \<Rightarrow> outcome # tool_outcomes tool_manager bs w')"

fun tools_world :: "'w execute_tool_fn \<Rightarrow> content_block list \<Rightarrow> 'w \<Rightarrow> 'w" where
  "tools_world tool_manager [] w = w"
| "tools_world tool_manager (b # bs) w =
     tools_world tool_manager bs (snd (tool_manager (name b) (input b) w))"

definition as_tool_result :: "content_block \<Rightarrow> string + string \<Rightarrow> tool_result" where
  "as_tool_result b outcome =
     \<lparr>result_type = ''tool_result'', tool_use_id = block_id b,
      result_content =
        (case outcome of Inr out \<Rightarrow> out | Inl e \<Rightarrow> ''Tool execution error: '' @ e)\<rparr>"

section \<open>Points of the sequential loop\<close>

text \<open>
  The state of a loop iteration at its model call: the assistant turn appended, the
  tools of the current response executed and the turn of their results appended. The
  parameters of that call are \<open>next_params\<close>.
\<close>

definition at_model_call ::
  "'w execute_tool_fn \<Rightarrow> addr \<Rightarrow> response \<Rightarrow> 'w state \<Rightarrow> 'w state" where
  "at_model_call tool_manager msgs current_response s =
     (case execute_tools current_response tool_manager
             (list_append msgs
                \<lparr>role = ''assistant'', turn_content = Blocks (content current_response)\<rparr> s) of
        (tool_results, s2) \<Rightarrow>
          list_append msgs \<lparr>role = ''user'', turn_content = ToolResults tool_results\<rparr> s2)"

definition next_params :: "addr api_params \<Rightarrow> addr \<Rightarrow> addr api_params" where
  "next_params params msgs = params\<lparr>messages := msgs, system := system params\<rparr>"

text \<open>A request has the fields of the parameters, the messages apart.\<close>

definition same_except_messages :: "request \<Rightarrow> addr api_params \<Rightarrow> bool" where
  "same_except_messages req params \<longleftrightarrow>
     model req = model params \<and> temperature req = temperature params \<and>
     max_tokens req = max_tokens params \<and> system req = system params \<and>
     tools req = tools params \<and> tool_choice req = tool_choice params"

section \<open>What the accumulated conversation means\<close>

text \<open>
  The two turns a round adds to the conversation: the assistant turn with the content
  of the current response, then the user turn with one result for each of its tool
  calls, executed in order from the world \<open>w\<close>. \<open>request_with\<close> is the parameters
  with a conversation as their messages.
\<close>

definition round_turns :: "'w execute_tool_fn \<Rightarrow> response \<Rightarrow> 'w \<Rightarrow> message list" where
  "round_turns tool_manager cur w =
     [\<lparr>role = ''assistant'', turn_content = Blocks (content cur)\<rparr>,
      \<lparr>role = ''user'', turn_content = ToolResults
         (map2 as_tool_result (tool_use_blocks cur)
            (tool_outcomes tool_manager (tool_use_blocks cur) w))\<rparr>]"

definition request_with :: "addr api_params \<Rightarrow> message list \<Rightarrow> request" where
  "request_with params conv =
     \<lparr>model = model params, temperature = temperature params,
      max_tokens = max_tokens params, messages = conv, system = system params,
      tools = tools params, tool_choice = tool_choice params\<rparr>"

text \<open>
  The requests that at most \<open>n\<close> rounds are to send, starting from the conversation
  \<open>conv\<close>, the current response and the world \<open>w\<close>: a round that has tool calls sends
  the conversation so far extended by its two turns, and the next round goes on from
  that conversation and from the response to the request; a request that raises is the
  last one.
\<close>

fun expected_requests ::
  "nat \<Rightarrow> 'w AIGenerator \<Rightarrow> 'w execute_tool_fn \<Rightarrow> addr api_params \<Rightarrow> message list
     \<Rightarrow> response \<Rightarrow> 'w \<Rightarrow> request list" where
  "expected_requests 0 self tool_manager params conv cur w = []"
| "expected_requests (Suc n) self tool_manager params conv cur w =
     (if stop_reason cur = ''tool_use'' \<and> tool_use_blocks cur \<noteq> [] then
        request_with params (conv @ round_turns tool_manager cur w) #
        (case client self (request_with params (conv @ round_turns tool_manager cur w))
                (tools_world tool_manager (tool_use_blocks cur) w) of
           (Inr next_response, w') \<Rightarrow>
             expected_requests n self tool_manager params
               (conv @ round_turns tool_manager cur w) next_response w'
         | (Inl e, w') \<Rightarrow> [])
      else [])"

text \<open>The number a string of decimal digits stands for.\<close>

definition digit_value :: "char \<Rightarrow> nat" where
  "digit_value c = of_char c - 48"

definition decimal_value :: "string \<Rightarrow> nat" where
  "decimal_value ds = foldl (\<lambda>acc c. 10 * acc + digit_value c) 0 ds"

section \<open>Example collaborators and inputs\<close>

text \<open>
  A client that always returns the same response, one that always raises, and one that
  answers from a script (the world is the rest of the script) and raises when the
  script is used up.
\<close>

definition constant_client :: "response \<Rightarrow> 'w create_fn" where
  "constant_client r req w = (Inr r, w)"

definition failing_client :: "string \<Rightarrow> 'w create_fn" where
  "failing_client m req w = (Inl m, w)"

definition scripted_client :: "(string + response) list create_fn" where
  "scripted_client req script =
     (case script of [] \<Rightarrow> (Inl ''StopIteration'', []) | x # rest \<Rightarrow> (x, rest))"

text \<open>A tool manager whose tool \<open>failing_tool\<close> raises and whose other tools return.\<close>

definition mock_tool_manager :: "'w execute_tool_fn" where
  "mock_tool_manager n kwargs w =
     (if n = ''failing_tool'' then (Inl ''Tool failed'', w)
      else (Inr ''Mock search results'', w))"

definition tool_block :: content_block where
  "tool_block =
     \<lparr>block_type = ''tool_use'', block_text = None, block_id = ''tool_1'',
      name = ''search_course_content'', input = [(''query'', ''test'')]\<rparr>"

definition text_block :: "string \<Rightarrow> content_block" where
  "text_block t =
     \<lparr>block_type = ''text'', block_text = Some t, block_id = [], name = [], input = []\<rparr>"

definition failing_block :: content_block where
  "failing_block =
     \<lparr>block_type = ''tool_use'', block_text = None, block_id = ''tool_0'',
      name = ''failing_tool'', input = []\<rparr>"

definition mixed_response :: response where
  "mixed_response =
     \<lparr>stop_reason = ''tool_use'',
      content = [failing_block, text_block ''Then a search.'', tool_block]\<rparr>"

definition tool_use_response :: response where
  "tool_use_response = \<lparr>stop_reason = ''tool_use'', content = [tool_block]\<rparr>"

definition announced_tool_use_response :: response where
  "announced_tool_use_response =
     \<lparr>stop_reason = ''tool_use'', content = [text_block ''Let me search.'', tool_block]\<rparr>"

definition toolless_response :: response where
  "toolless_response =
     \<lparr>stop_reason = ''tool_use'', content = [text_block ''No tool needed.'']\<rparr>"

definition empty_tool_use_response :: response where
  "empty_tool_use_response = \<lparr>stop_reason = ''tool_use'', content = []\<rparr>"


definition text_response :: "string \<Rightarrow> response" where
  "text_response t = \<lparr>stop_reason = ''end_turn'', content = [text_block t]\<rparr>"

definition search_tool :: tool_def where
  "search_tool =
     \<lparr>tool_name = ''search_course_content'', description = ''Search course content'',
      input_schema = ''{}''\<rparr>"

definition test_params :: "addr api_params" where
  "test_params =
     \<lparr>model = ''test-model'', temperature = 0, max_tokens = 800, messages = 0,
      system = ''system'', tools = Some [search_tool],
      tool_choice = Some [(''type'', ''auto'')]\<rparr>"

text \<open>A state whose only list object, at address 0, holds the user turn.\<close>

definition test_state :: "'w \<Rightarrow> 'w state" where
  "test_state w =
     \<lparr>heap = (\<lambda>a. if a = 0 then [\<lparr>role = ''user'', turn_content = Text ''test''\<rparr>] else []),
      next_addr = 1, world = w, api_log = [], tool_log = []\<rparr>"

section \<open>The request of the single-round handler\<close>

text \<open>
  What \<^verbatim>\<open>_handle_tool_execution\<close> is to send from a state \<open>s\<close>: the parameters of the
  generator, the system text of \<open>params\<close>, the messages of \<open>params\<close> followed by the
  assistant turn and, when there are tool results, the turn of the results; no tool
  definitions and no tool_choice.
\<close>

definition final_request ::
  "'w AIGenerator \<Rightarrow> response \<Rightarrow> addr api_params \<Rightarrow> 'w execute_tool_fn \<Rightarrow> 'w state \<Rightarrow> request" where
  "final_request self r params tool_manager s =
     \<lparr>model = model (base_params self), temperature = temperature (base_params self),
      max_tokens = max_tokens (base_params self),
      messages = heap s (messages params) @
         \<lparr>role = ''assistant'', turn_content = Blocks (content r)\<rparr> #
         (if tool_use_blocks r \<noteq> [] then
            [\<lparr>role = ''user'', turn_content = ToolResults
                (map2 as_tool_result (tool_use_blocks r)
                   (tool_outcomes tool_manager (tool_use_blocks r) (world s)))\<rparr>]
          else []),
      system = system params, tools = None, tool_choice = None\<rparr>"

definition fallback_script :: "(string + response) list" where
  "fallback_script =
     [Inr tool_use_response, Inr tool_use_response, Inr tool_use_response,
      Inr (text_response ''Fallback response'')]"

definition failing_second_call_script :: "(string + response) list" where
  "failing_second_call_script = [Inr tool_use_response, Inl ''API call failed'']"

section \<open>Lemmas on the state, the loop and the handlers\<close>

lemma list_new_simps:
  "fst (list_new ms s) = next_addr s"
  "heap (snd (list_new ms s)) = (heap s)(next_addr s := ms)"
  "next_addr (snd (list_new ms s)) = Suc (next_addr s)"
  "world (snd (list_new ms s)) = world s"
  "api_log (snd (list_new ms s)) = api_log s"
  "tool_log (snd (list_new ms s)) = tool_log s"
  by (simp_all add: list_new_def)

lemma list_append_simps:
  "heap (list_append a m s) = (heap s)(a := heap s a @ [m])"
  "next_addr (list_append a m s) = next_addr s"
  "world (list_append a m s) = world s"
  "api_log (list_append a m s) = api_log s"
  "tool_log (list_append a m s) = tool_log s"
  by (simp_all add: list_append_def)

lemma messages_create_simps:
  "fst (messages_create self p s) = fst (client self (resolve (heap s) p) (world s))"
  "heap (snd (messages_create self p s)) = heap s"
  "next_addr (snd (messages_create self p s)) = next_addr s"
  "world (snd (messages_create self p s)) = snd (client self (resolve (heap s) p) (world s))"
  "api_log (snd (messages_create self p s)) = api_log s @ [resolve (heap s) p]"
  "tool_log (snd (messages_create self p s)) = tool_log s"
  by (simp_all add: messages_create_def Let_def split: prod.splits)

lemma execute_tool_simps:
  "fst (execute_tool tm n i s) = fst (tm n i (world s))"
  "heap (snd (execute_tool tm n i s)) = heap s"
  "next_addr (snd (execute_tool tm n i s)) = next_addr s"
  "world (snd (execute_tool tm n i s)) = snd (tm n i (world s))"
  "api_log (snd (execute_tool tm n i s)) = api_log s"
  "tool_log (snd (execute_tool tm n i s)) = tool_log s @ [(n, i)]"
  by (simp_all add: execute_tool_def split: prod.splits)

lemma execute_tools_loop_frame:
  "heap (snd (execute_tools_loop tm bs acc s)) = heap s \<and>
   next_addr (snd (execute_tools_loop tm bs acc s)) = next_addr s \<and>
   api_log (snd (execute_tools_loop tm bs acc s)) = api_log s"
proof (induction bs arbitrary: acc s)
  case Nil
  show ?case by simp
next
  case (Cons b bs)
  show ?case
  proof (cases "block_type b = ''tool_use''")
    case False
    then show ?thesis using Cons.IH by simp
  next
    case True
    obtain r s' where ex: "execute_tool tm (name b) (input b) s = (r, s')"
      by (cases "execute_tool tm (name b) (input b) s")
    have fr: "heap s' = heap s" "next_addr s' = next_addr s" "api_log s' = api_log s"
      using execute_tool_simps(2,3,5) [of tm "name b" "input b" s] ex by simp_all
    show ?thesis using True ex fr Cons.IH by (cases r) simp_all
  qed
qed

lemma execute_tools_loop_log:
  "tool_log (snd (execute_tools_loop tm bs acc s)) =
     tool_log s @ map (\<lambda>b. (name b, input b)) (filter (\<lambda>b. block_type b = ''tool_use'') bs)"
proof (induction bs arbitrary: acc s)
  case Nil
  show ?case by simp
next
  case (Cons b bs)
  show ?case
  proof (cases "block_type b = ''tool_use''")
    case False
    then show ?thesis using Cons.IH by simp
  next
    case True
    obtain r s' where ex: "execute_tool tm (name b) (input b) s = (r, s')"
      by (cases "execute_tool tm (name b) (input b) s")
    have lg: "tool_log s' = tool_log s @ [(name b, input b)]"
      using execute_tool_simps(6) [of tm "name b" "input b" s] ex by simp
    show ?thesis using True ex lg Cons.IH by (cases r) simp_all
  qed
qed

lemma execute_tools_loop_world:
  "world (snd (execute_tools_loop tm bs acc s)) =
     tools_world tm (filter (\<lambda>b. block_type b = ''tool_use'') bs) (world s)"
proof (induction bs arbitrary: acc s)
  case Nil
  show ?case by simp
next
  case (Cons b bs)
  show ?case
  proof (cases "block_type b = ''tool_use''")
    case False
    then show ?thesis using Cons.IH by simp
  next
    case True
    obtain r s' where ex: "execute_tool tm (name b) (input b) s = (r, s')"
      by (cases "execute_tool tm (name b) (input b) s")
    have w: "world s' = snd (tm (name b) (input b) (world s))"
      using execute_tool_simps(4) [of tm "name b" "input b" s] ex by simp
    show ?thesis using True ex w Cons.IH by (cases r) simp_all
  qed
qed

lemma execute_tools_loop_results:
  "fst (execute_tools_loop tm bs acc s) =
     acc @ map2 as_tool_result (filter (\<lambda>b. block_type b = ''tool_use'') bs)
             (tool_outcomes tm (filter (\<lambda>b. block_type b = ''tool_use'') bs) (world s))"
proof (induction bs arbitrary: acc s)
  case Nil
  show ?case by simp
next
  case (Cons b bs)
  show ?case
  proof (cases "block_type b = ''tool_use''")
    case False
    then show ?thesis using Cons.IH by simp
  next
    case True
    obtain out w' where tmr: "tm (name b) (input b) (world s) = (out, w')"
      by (cases "tm (name b) (input b) (world s)")
    have ex: "execute_tool tm (name b) (input b) s =
        (out, s\<lparr>world := w', tool_log := tool_log s @ [(name b, input b)]\<rparr>)"
      using tmr by (simp add: execute_tool_def)
    show ?thesis using True ex tmr Cons.IH
      by (cases out) (simp_all add: as_tool_result_def)
  qed
qed

lemma length_tool_outcomes: "length (tool_outcomes tm bs w) = length bs"
  by (induction bs arbitrary: w) (simp_all split: prod.splits)

lemma execute_tools_frame:
  "heap (snd (execute_tools r tm s)) = heap s"
  "next_addr (snd (execute_tools r tm s)) = next_addr s"
  "api_log (snd (execute_tools r tm s)) = api_log s"
  "tool_log (snd (execute_tools r tm s)) = tool_log s @ tool_calls r"
  "world (snd (execute_tools r tm s)) = tools_world tm (tool_use_blocks r) (world s)"
  by (simp_all add: execute_tools_def tool_calls_def tool_use_blocks_def
        execute_tools_loop_frame execute_tools_loop_log execute_tools_loop_world)

lemma execute_tools_results:
  "fst (execute_tools r tm s) =
     map2 as_tool_result (tool_use_blocks r) (tool_outcomes tm (tool_use_blocks r) (world s))"
  by (simp add: execute_tools_def tool_use_blocks_def execute_tools_loop_results)

lemma execute_tools_empty_iff:
  "fst (execute_tools r tm s) = [] \<longleftrightarrow> tool_use_blocks r = []"
proof -
  have "length (fst (execute_tools r tm s)) = length (tool_use_blocks r)"
    by (simp add: execute_tools_results length_tool_outcomes)
  then show ?thesis by (metis length_0_conv)
qed

lemma execute_tools_no_blocks:
  assumes "tool_use_blocks r = []"
  shows "execute_tools r tm s = ([], s)"
proof -
  have "execute_tools_loop tm bs acc s = (acc, s)"
    if "filter (\<lambda>b. block_type b = ''tool_use'') bs = []" for bs acc
    using that by (induction bs arbitrary: acc) (simp_all split: if_splits)
  then show ?thesis using assms by (simp add: execute_tools_def tool_use_blocks_def)
qed

lemma at_model_call_alt:
  "at_model_call tm msgs r s =
     list_append msgs
       \<lparr>role = ''user'', turn_content = ToolResults (fst (execute_tools r tm
          (list_append msgs \<lparr>role = ''assistant'', turn_content = Blocks (content r)\<rparr> s)))\<rparr>
       (snd (execute_tools r tm
          (list_append msgs \<lparr>role = ''assistant'', turn_content = Blocks (content r)\<rparr> s)))"
  by (simp add: at_model_call_def case_prod_beta)

lemma at_model_call_simps:
  "heap (at_model_call tm msgs r s) =
     (heap s)(msgs := heap s msgs @
        [\<lparr>role = ''assistant'', turn_content = Blocks (content r)\<rparr>,
         \<lparr>role = ''user'', turn_content = ToolResults (fst (execute_tools r tm
            (list_append msgs \<lparr>role = ''assistant'', turn_content = Blocks (content r)\<rparr> s)))\<rparr>])"
  "next_addr (at_model_call tm msgs r s) = next_addr s"
  "api_log (at_model_call tm msgs r s) = api_log s"
  "tool_log (at_model_call tm msgs r s) = tool_log s @ tool_calls r"
  "world (at_model_call tm msgs r s) = tools_world tm (tool_use_blocks r) (world s)"
  by (simp_all add: at_model_call_alt list_append_simps execute_tools_frame)

lemma sequential_loop_exit:
  assumes "\<not> (round_count < max_rounds \<and> stop_reason cur = ''tool_use'')"
  shows "sequential_loop self params tm max_rounds msgs cur round_count s =
           (Exit cur, round_count, s)"
  using assms by (subst sequential_loop.simps) auto

lemma sequential_loop_break:
  assumes "round_count < max_rounds" and "stop_reason cur = ''tool_use''"
    and "tool_use_blocks cur = []"
  shows "sequential_loop self params tm max_rounds msgs cur round_count s =
           (Exit cur, round_count + 1,
            list_append msgs \<lparr>role = ''assistant'', turn_content = Blocks (content cur)\<rparr> s)"
  using assms
  by (subst sequential_loop.simps) (simp add: execute_tools_no_blocks)

lemma sequential_loop_call:
  assumes "round_count < max_rounds" and "stop_reason cur = ''tool_use''"
    and "tool_use_blocks cur \<noteq> []"
  shows "sequential_loop self params tm max_rounds msgs cur round_count s =
           (case messages_create self (next_params params msgs)
                   (at_model_call tm msgs cur s) of
              (Inl e, s4) \<Rightarrow>
                (Return (''Error in tool execution round '' @ str_int (round_count + 1)
                           @ '': '' @ e), round_count + 1, s4)
            | (Inr next_response, s4) \<Rightarrow>
                sequential_loop self params tm max_rounds msgs next_response
                  (round_count + 1) s4)"
proof -
  let ?s1 = "list_append msgs \<lparr>role = ''assistant'', turn_content = Blocks (content cur)\<rparr> s"
  obtain trs s2 where et: "execute_tools cur tm ?s1 = (trs, s2)"
    by (cases "execute_tools cur tm ?s1")
  have ne: "trs \<noteq> []"
    using execute_tools_empty_iff [of cur tm ?s1] et assms(3) by simp
  have amc: "at_model_call tm msgs cur s =
      list_append msgs \<lparr>role = ''user'', turn_content = ToolResults trs\<rparr> s2"
    using et by (simp add: at_model_call_def)
  show ?thesis
    using assms(1,2) et ne
    by (subst sequential_loop.simps) (simp add: amc next_params_def Let_def)
qed

lemma str_int_small: "str_int 1 = ''1''" "str_int 2 = ''2''"
  by (simp_all add: str_int_def str_nat.simps [of "Suc 0"] str_nat.simps [of 2] digit_def)

lemma always_tool_use_call:
  assumes "\<forall>req w. \<exists>r w'. client self req w = (Inr r, w') \<and> stop_reason r = ''tool_use''
              \<and> tool_use_blocks r \<noteq> []"
  shows "\<exists>r s'. messages_create self p s = (Inr r, s') \<and> stop_reason r = ''tool_use''
              \<and> tool_use_blocks r \<noteq> []"
proof -
  obtain r w' where "client self (resolve (heap s) p) (world s) = (Inr r, w')"
    and "stop_reason r = ''tool_use''" and "tool_use_blocks r \<noteq> []"
    using assms by blast
  then show ?thesis by (simp add: messages_create_def Let_def)
qed

text \<open>
  An induction rule for the loop, by the way an iteration ends: the condition fails,
  the \<^verbatim>\<open>break\<close>, the model call raises, or the model call returns and the loop goes on.
\<close>

lemma sequential_loop_rule [case_names exit break error step]:
  fixes P :: "response \<Rightarrow> int \<Rightarrow> 'w state \<Rightarrow> loop_exit \<times> int \<times> 'w state \<Rightarrow> bool"
  assumes ex: "\<And>cur rc s. \<not> (rc < max_rounds \<and> stop_reason cur = ''tool_use'')
                 \<Longrightarrow> P cur rc s (Exit cur, rc, s)"
    and br: "\<And>cur rc s. rc < max_rounds \<Longrightarrow> stop_reason cur = ''tool_use''
                 \<Longrightarrow> tool_use_blocks cur = []
                 \<Longrightarrow> P cur rc s (Exit cur, rc + 1,
                        list_append msgs
                          \<lparr>role = ''assistant'', turn_content = Blocks (content cur)\<rparr> s)"
    and er: "\<And>cur rc s e s4. rc < max_rounds \<Longrightarrow> stop_reason cur = ''tool_use''
                 \<Longrightarrow> tool_use_blocks cur \<noteq> []
                 \<Longrightarrow> messages_create self (next_params params msgs)
                       (at_model_call tm msgs cur s) = (Inl e, s4)
                 \<Longrightarrow> P cur rc s
                       (Return (''Error in tool execution round '' @ str_int (rc + 1)
                                  @ '': '' @ e), rc + 1, s4)"
    and st: "\<And>cur rc s r' s4. rc < max_rounds \<Longrightarrow> stop_reason cur = ''tool_use''
                 \<Longrightarrow> tool_use_blocks cur \<noteq> []
                 \<Longrightarrow> messages_create self (next_params params msgs)
                       (at_model_call tm msgs cur s) = (Inr r', s4)
                 \<Longrightarrow> P r' (rc + 1) s4
                       (sequential_loop self params tm max_rounds msgs r' (rc + 1) s4)
                 \<Longrightarrow> P cur rc s
                       (sequential_loop self params tm max_rounds msgs r' (rc + 1) s4)"
  shows "P cur rc s (sequential_loop self params tm max_rounds msgs cur rc s)"
proof (induction "nat (max_rounds - rc)" arbitrary: cur rc s)
  case 0
  then have "\<not> rc < max_rounds" by simp
  then show ?case using ex [where rc = rc and cur = cur and s = s] by (simp add: sequential_loop_exit)
next
  case (Suc n)
  show ?case
  proof (cases "rc < max_rounds \<and> stop_reason cur = ''tool_use''")
    case False
    then show ?thesis using ex [where rc = rc and cur = cur and s = s] by (simp add: sequential_loop_exit)
  next
    case cond: True
    show ?thesis
    proof (cases "tool_use_blocks cur = []")
      case True
      then show ?thesis using cond br [OF _ _ True, where rc = rc and s = s] by (simp add: sequential_loop_break)
    next
      case False
      let ?call = "messages_create self (next_params params msgs) (at_model_call tm msgs cur s)"
      obtain out s4 where call: "?call = (out, s4)" by (cases ?call)
      have unf: "sequential_loop self params tm max_rounds msgs cur rc s =
          (case (out, s4) of
              (Inl e, s4) \<Rightarrow>
                (Return (''Error in tool execution round '' @ str_int (rc + 1)
                           @ '': '' @ e), rc + 1, s4)
            | (Inr next_response, s4) \<Rightarrow>
                sequential_loop self params tm max_rounds msgs next_response (rc + 1) s4)"
        using sequential_loop_call [of rc max_rounds cur self params tm msgs s] cond False call
        by simp
      show ?thesis
      proof (cases out)
        case (Inl e)
        have "?call = (Inl e, s4)" using call Inl by simp
        from er [OF _ _ False this] cond show ?thesis using unf Inl by simp
      next
        case (Inr r')
        have "n = nat (max_rounds - (rc + 1))" using Suc.hyps(2) by simp
        then have "P r' (rc + 1) s4
                     (sequential_loop self params tm max_rounds msgs r' (rc + 1) s4)"
          by (rule Suc.hyps(1))
        moreover have "?call = (Inr r', s4)" using call Inr by simp
        ultimately show ?thesis using st [OF _ _ False, where rc = rc and r' = r' and ?s4.0 = s4] cond unf Inr by simp
      qed
    qed
  qed
qed

lemma request_at_model_call:
  "same_except_messages (resolve (heap (at_model_call tm msgs cur s)) (next_params params msgs))
     params"
  "messages (resolve (heap (at_model_call tm msgs cur s)) (next_params params msgs)) =
     heap s msgs @
       [\<lparr>role = ''assistant'', turn_content = Blocks (content cur)\<rparr>,
        \<lparr>role = ''user'', turn_content = ToolResults (fst (execute_tools cur tm
           (list_append msgs \<lparr>role = ''assistant'', turn_content = Blocks (content cur)\<rparr> s)))\<rparr>]"
  by (simp_all add: same_except_messages_def resolve_def next_params_def at_model_call_simps)

lemma after_model_call:
  assumes "messages_create self (next_params params msgs) (at_model_call tm msgs cur s) = (out, s4)"
  shows "api_log s4 = api_log s @
           [resolve (heap (at_model_call tm msgs cur s)) (next_params params msgs)]"
    and "tool_log s4 = tool_log s @ tool_calls cur"
    and "next_addr s4 = next_addr s"
    and "heap s4 = heap (at_model_call tm msgs cur s)"
proof -
  have "s4 = snd (messages_create self (next_params params msgs) (at_model_call tm msgs cur s))"
    using assms by simp
  then show "api_log s4 = api_log s @
           [resolve (heap (at_model_call tm msgs cur s)) (next_params params msgs)]"
    and "tool_log s4 = tool_log s @ tool_calls cur"
    and "next_addr s4 = next_addr s"
    and "heap s4 = heap (at_model_call tm msgs cur s)"
    by (simp_all add: messages_create_simps at_model_call_simps)
qed

lemma sequential_loop_requests:
  "\<exists>new. api_log (snd (snd (sequential_loop self params tm max_rounds msgs cur rc s))) =
            api_log s @ new
         \<and> (\<forall>req\<in>set new. same_except_messages req params
               \<and> (\<exists>extra. extra \<noteq> [] \<and> messages req = heap s msgs @ extra))"
proof (rule sequential_loop_rule [where P = "\<lambda>cur rc s res.
         \<exists>new. api_log (snd (snd res)) = api_log s @ new
         \<and> (\<forall>req\<in>set new. same_except_messages req params
               \<and> (\<exists>extra. extra \<noteq> [] \<and> messages req = heap s msgs @ extra))"])
  fix cur :: response and rc :: int and s :: "'a state"
  show "\<exists>new. api_log (snd (snd (Exit cur, rc, s))) = api_log s @ new
         \<and> (\<forall>req\<in>set new. same_except_messages req params
               \<and> (\<exists>extra. extra \<noteq> [] \<and> messages req = heap s msgs @ extra))"
    by simp
next
  fix cur :: response and rc :: int and s :: "'a state"
  show "\<exists>new. api_log (snd (snd (Exit cur, rc + 1,
            list_append msgs \<lparr>role = ''assistant'', turn_content = Blocks (content cur)\<rparr> s)))
            = api_log s @ new
         \<and> (\<forall>req\<in>set new. same_except_messages req params
               \<and> (\<exists>extra. extra \<noteq> [] \<and> messages req = heap s msgs @ extra))"
    by (simp add: list_append_simps)
next
  fix cur :: response and rc :: int and s s4 :: "'a state" and e
  assume call: "messages_create self (next_params params msgs) (at_model_call tm msgs cur s)
                  = (Inl e, s4)"
  let ?req = "resolve (heap (at_model_call tm msgs cur s)) (next_params params msgs)"
  have "api_log s4 = api_log s @ [?req]" by (rule after_model_call(1) [OF call])
  moreover have "same_except_messages ?req params" by (rule request_at_model_call(1))
  moreover have "\<exists>extra. extra \<noteq> [] \<and> messages ?req = heap s msgs @ extra"
    by (simp add: request_at_model_call(2))
  ultimately show "\<exists>new. api_log (snd (snd
          (Return (''Error in tool execution round '' @ str_int (rc + 1) @ '': '' @ e),
           rc + 1, s4))) = api_log s @ new
         \<and> (\<forall>req\<in>set new. same_except_messages req params
               \<and> (\<exists>extra. extra \<noteq> [] \<and> messages req = heap s msgs @ extra))"
    by (intro exI [of _ "[?req]"]) simp
next
  fix cur r' :: response and rc :: int and s s4 :: "'a state"
  assume call: "messages_create self (next_params params msgs) (at_model_call tm msgs cur s)
                  = (Inr r', s4)"
    and IH: "\<exists>new. api_log (snd (snd (sequential_loop self params tm max_rounds msgs r'
                 (rc + 1) s4))) = api_log s4 @ new
         \<and> (\<forall>req\<in>set new. same_except_messages req params
               \<and> (\<exists>extra. extra \<noteq> [] \<and> messages req = heap s4 msgs @ extra))"
  let ?req = "resolve (heap (at_model_call tm msgs cur s)) (next_params params msgs)"
  let ?fin = "snd (snd (sequential_loop self params tm max_rounds msgs r' (rc + 1) s4))"
  obtain new where n1: "api_log ?fin = api_log s4 @ new"
    and n2: "\<forall>req\<in>set new. same_except_messages req params
               \<and> (\<exists>extra. extra \<noteq> [] \<and> messages req = heap s4 msgs @ extra)"
    using IH by blast
  have lg: "api_log s4 = api_log s @ [?req]" by (rule after_model_call(1) [OF call])
  have hp: "\<exists>two. heap s4 msgs = heap s msgs @ two"
    by (simp add: after_model_call(4) [OF call] at_model_call_simps)
  have r1: "same_except_messages ?req params" by (rule request_at_model_call(1))
  have r2: "\<exists>extra. extra \<noteq> [] \<and> messages ?req = heap s msgs @ extra"
    by (simp add: request_at_model_call(2))
  have n3: "\<forall>req\<in>set new. same_except_messages req params
               \<and> (\<exists>extra. extra \<noteq> [] \<and> messages req = heap s msgs @ extra)"
  proof
    fix req assume "req \<in> set new"
    then obtain extra where sm: "same_except_messages req params" and "extra \<noteq> []"
      and "messages req = heap s4 msgs @ extra" using n2 by blast
    moreover obtain two where "heap s4 msgs = heap s msgs @ two" using hp by blast
    ultimately have "two @ extra \<noteq> [] \<and> messages req = heap s msgs @ (two @ extra)" by simp
    then show "same_except_messages req params
               \<and> (\<exists>extra. extra \<noteq> [] \<and> messages req = heap s msgs @ extra)"
      using sm by blast
  qed
  have "api_log ?fin = api_log s @ (?req # new)" using n1 lg by simp
  moreover have "\<forall>req\<in>set (?req # new). same_except_messages req params
               \<and> (\<exists>extra. extra \<noteq> [] \<and> messages req = heap s msgs @ extra)"
    using r1 r2 n3 by simp
  ultimately show "\<exists>new. api_log ?fin = api_log s @ new
         \<and> (\<forall>req\<in>set new. same_except_messages req params
               \<and> (\<exists>extra. extra \<noteq> [] \<and> messages req = heap s msgs @ extra))"
    by blast
qed

lemma sequential_loop_heap:
  "next_addr (snd (snd (sequential_loop self params tm max_rounds msgs cur rc s))) = next_addr s
   \<and> (\<forall>a. a \<noteq> msgs \<longrightarrow>
         heap (snd (snd (sequential_loop self params tm max_rounds msgs cur rc s))) a = heap s a)"
proof (rule sequential_loop_rule [where P = "\<lambda>cur rc s res.
         next_addr (snd (snd res)) = next_addr s
         \<and> (\<forall>a. a \<noteq> msgs \<longrightarrow> heap (snd (snd res)) a = heap s a)"])
  fix cur :: response and rc :: int and s :: "'a state"
  show "next_addr (snd (snd (Exit cur, rc, s))) = next_addr s
         \<and> (\<forall>a. a \<noteq> msgs \<longrightarrow> heap (snd (snd (Exit cur, rc, s))) a = heap s a)"
    by simp
  show "next_addr (snd (snd (Exit cur, rc + 1,
            list_append msgs \<lparr>role = ''assistant'', turn_content = Blocks (content cur)\<rparr> s)))
          = next_addr s
         \<and> (\<forall>a. a \<noteq> msgs \<longrightarrow> heap (snd (snd (Exit cur, rc + 1,
            list_append msgs \<lparr>role = ''assistant'', turn_content = Blocks (content cur)\<rparr> s))) a
            = heap s a)"
    by (simp add: list_append_simps)
next
  fix cur :: response and rc :: int and s s4 :: "'a state" and e
  assume call: "messages_create self (next_params params msgs) (at_model_call tm msgs cur s)
                  = (Inl e, s4)"
  show "next_addr (snd (snd
          (Return (''Error in tool execution round '' @ str_int (rc + 1) @ '': '' @ e),
           rc + 1, s4))) = next_addr s
         \<and> (\<forall>a. a \<noteq> msgs \<longrightarrow> heap (snd (snd
          (Return (''Error in tool execution round '' @ str_int (rc + 1) @ '': '' @ e),
           rc + 1, s4))) a = heap s a)"
    by (simp add: after_model_call(3,4) [OF call] at_model_call_simps)
next
  fix cur r' :: response and rc :: int and s s4 :: "'a state"
  let ?fin = "snd (snd (sequential_loop self params tm max_rounds msgs r' (rc + 1) s4))"
  assume call: "messages_create self (next_params params msgs) (at_model_call tm msgs cur s)
                  = (Inr r', s4)"
    and IH: "next_addr ?fin = next_addr s4
         \<and> (\<forall>a. a \<noteq> msgs \<longrightarrow> heap ?fin a = heap s4 a)"
  show "next_addr ?fin = next_addr s
         \<and> (\<forall>a. a \<noteq> msgs \<longrightarrow> heap ?fin a = heap s a)"
    using IH by (simp add: after_model_call(3,4) [OF call] at_model_call_simps)
qed

lemma handle_sequential_state:
  "snd (handle_sequential_tool_execution self r params tm max_rounds s) =
     snd (snd (sequential_loop self params tm max_rounds (next_addr s) r 0
                 (snd (list_copy (messages params) s))))"
proof -
  obtain ex rc s' where l: "sequential_loop self params tm max_rounds (next_addr s) r 0
                 (snd (list_copy (messages params) s)) = (ex, rc, s')"
    by (cases "sequential_loop self params tm max_rounds (next_addr s) r 0
                 (snd (list_copy (messages params) s))")
  then show ?thesis
    by (cases ex)
       (simp_all add: handle_sequential_tool_execution_def loop_then_return_def split_beta
          list_copy_def list_new_simps)
qed

lemma list_copy_simps:
  "fst (list_copy a s) = next_addr s"
  "heap (snd (list_copy a s)) = (heap s)(next_addr s := heap s a)"
  "next_addr (snd (list_copy a s)) = Suc (next_addr s)"
  "world (snd (list_copy a s)) = world s"
  "api_log (snd (list_copy a s)) = api_log s"
  "tool_log (snd (list_copy a s)) = tool_log s"
  by (simp_all add: list_copy_def list_new_simps)

lemma handle_sequential_heap:
  "next_addr (snd (handle_sequential_tool_execution self r params tm max_rounds s)) =
     Suc (next_addr s)"
  "a < next_addr s \<Longrightarrow>
     heap (snd (handle_sequential_tool_execution self r params tm max_rounds s)) a = heap s a"
  using sequential_loop_heap [of self params tm max_rounds "next_addr s" r 0
          "snd (list_copy (messages params) s)"]
  by (simp_all add: handle_sequential_state list_copy_simps)

lemma handle_tool_execution_alt:
  "handle_tool_execution self r params tm s =
     (let msgs = next_addr s;
          s1 = list_append msgs \<lparr>role = ''assistant'', turn_content = Blocks (content r)\<rparr>
                 (snd (list_copy (messages params) s));
          trs = fst (execute_tools r tm s1);
          s2 = snd (execute_tools r tm s1);
          s3 = (if trs \<noteq> [] then
                  list_append msgs \<lparr>role = ''user'', turn_content = ToolResults trs\<rparr> s2
                else s2);
          final_params =
            \<lparr>model = model (base_params self), temperature = temperature (base_params self),
             max_tokens = max_tokens (base_params self), messages = msgs,
             system = system params, tools = None, tool_choice = None\<rparr>;
          call = messages_create self final_params s3
      in ((case fst call of Inl e \<Rightarrow> Inl (Raised e) | Inr fr \<Rightarrow> first_text fr), snd call))"
  by (simp add: handle_tool_execution_def Let_def split_beta list_copy_simps
        split: sum.splits)

lemma handle_tool_execution_heap:
  "next_addr (snd (handle_tool_execution self r params tm s)) = Suc (next_addr s)"
  "a < next_addr s \<Longrightarrow> heap (snd (handle_tool_execution self r params tm s)) a = heap s a"
  by (simp_all add: handle_tool_execution_alt Let_def messages_create_simps list_append_simps
        execute_tools_frame list_copy_simps)

lemma one_round_run:
  assumes "stop_reason r0 = ''tool_use''" and "tool_use_blocks r0 \<noteq> []" and "0 < max_rounds"
    and "messages_create self (next_params params a) (at_model_call tm a r0 s0) = (Inr r1, s1)"
    and "stop_reason r1 \<noteq> ''tool_use''"
  shows "sequential_loop self params tm max_rounds a r0 0 s0 = (Exit r1, 1, s1)"
proof -
  have "sequential_loop self params tm max_rounds a r1 (0 + 1) s1 = (Exit r1, 0 + 1, s1)"
    by (rule sequential_loop_exit) (simp add: assms(5))
  then show ?thesis
    by (subst sequential_loop_call [OF assms(3,1,2)], subst assms(4)) simp
qed

lemma generate_response_alt:
  "generate_response self query h tools_arg tmo s =
     (let msgs = next_addr s;
          s0 = snd (list_new [\<lparr>role = ''user'', turn_content = Text query\<rparr>] s);
          api_params = initial_params self h tools_arg msgs;
          call = messages_create self api_params s0
      in case fst call of
           Inl e \<Rightarrow> (Inl (Raised e), snd call)
         | Inr r \<Rightarrow>
             if stop_reason r = ''tool_use'' \<and> tmo \<noteq> None then
               (let hs = handle_sequential_tool_execution self r api_params (the tmo) 2
                           (snd call)
                in case fst hs of
                     Inr answer \<Rightarrow> (Inr answer, snd hs)
                   | Inl e \<Rightarrow> handle_tool_execution self r api_params (the tmo) (snd hs))
             else (first_text r, snd call))"
proof -
  let ?ap = "initial_params self h tools_arg (next_addr s)"
  let ?st = "s\<lparr>heap := (heap s)(next_addr s := [\<lparr>role = ''user'', turn_content = Text query\<rparr>]),
               next_addr := Suc (next_addr s)\<rparr>"
  obtain out s1 where call: "messages_create self ?ap ?st = (out, s1)"
    by (cases "messages_create self ?ap ?st")
  show ?thesis
  proof (cases out)
    case (Inl e)
    then show ?thesis using call by (simp add: generate_response_def list_new_def Let_def)
  next
    case (Inr r)
    obtain res s2 where hs:
      "handle_sequential_tool_execution self r ?ap (the tmo) 2 s1 = (res, s2)"
      by (cases "handle_sequential_tool_execution self r ?ap (the tmo) 2 s1")
    show ?thesis using call Inr hs
      by (cases res; cases tmo) (simp_all add: generate_response_def list_new_def Let_def)
  qed
qed

lemma generate_response_heap:
  "heap (snd (generate_response self query h tools_arg tmo s)) (next_addr s) =
     [\<lparr>role = ''user'', turn_content = Text query\<rparr>]"
proof -
  let ?a = "next_addr s"
  let ?ap = "initial_params self h tools_arg ?a"
  let ?call = "messages_create self ?ap
                 (snd (list_new [\<lparr>role = ''user'', turn_content = Text query\<rparr>] s))"
  have h1: "heap (snd ?call) ?a = [\<lparr>role = ''user'', turn_content = Text query\<rparr>]"
    and n1: "?a < next_addr (snd ?call)"
    by (simp_all add: messages_create_simps list_new_simps)
  have h2: "heap (snd (handle_sequential_tool_execution self r ?ap tm 2 (snd ?call))) ?a =
              [\<lparr>role = ''user'', turn_content = Text query\<rparr>]"
    and n2: "?a < next_addr (snd (handle_sequential_tool_execution self r ?ap tm 2 (snd ?call)))"
    for r tm
    using n1 h1 by (simp_all add: handle_sequential_heap)
  have h3: "heap (snd (handle_tool_execution self r ?ap tm
              (snd (handle_sequential_tool_execution self r ?ap tm 2 (snd ?call))))) ?a =
              [\<lparr>role = ''user'', turn_content = Text query\<rparr>]" for r tm
    using n2 [of r tm] h2 [of r tm] by (simp add: handle_tool_execution_heap)
  show ?thesis
    by (simp add: generate_response_alt Let_def h1 h2 h3 split: sum.splits)
qed

lemma resolve_initial_params:
  "resolve hp (initial_params self h tools_arg a) = initial_params self h tools_arg (hp a)"
  by (simp add: resolve_def initial_params_def Let_def split: option.splits)

lemma handle_sequential_log_prefix:
  "\<exists>new. api_log (snd (handle_sequential_tool_execution self r params tm max_rounds s)) =
            api_log s @ new"
  using sequential_loop_requests [of self params tm max_rounds "next_addr s" r 0
          "snd (list_copy (messages params) s)"]
  by (auto simp add: handle_sequential_state list_copy_simps)

lemma tool_outcomes_empty_iff: "tool_outcomes tm bs w = [] \<longleftrightarrow> bs = []"
  using length_tool_outcomes [of tm bs w] by (metis length_0_conv)

lemma handle_tool_execution_logs:
  "api_log (snd (handle_tool_execution self r params tm s)) =
     api_log s @
       [\<lparr>model = model (base_params self), temperature = temperature (base_params self),
         max_tokens = max_tokens (base_params self),
         messages = heap s (messages params) @
            \<lparr>role = ''assistant'', turn_content = Blocks (content r)\<rparr> #
            (if tool_use_blocks r \<noteq> [] then
               [\<lparr>role = ''user'', turn_content = ToolResults
                   (map2 as_tool_result (tool_use_blocks r)
                      (tool_outcomes tm (tool_use_blocks r) (world s)))\<rparr>]
             else []),
         system = system params, tools = None, tool_choice = None\<rparr>]"
  "tool_log (snd (handle_tool_execution self r params tm s)) = tool_log s @ tool_calls r"
  by (simp_all add: handle_tool_execution_alt Let_def messages_create_simps list_append_simps
        execute_tools_frame list_copy_simps resolve_def execute_tools_empty_iff
        execute_tools_results tool_outcomes_empty_iff)

lemma generate_response_first_request:
  "\<exists>more. api_log (snd (generate_response self query h tools_arg tmo s)) =
      api_log s @
        initial_params self h tools_arg [\<lparr>role = ''user'', turn_content = Text query\<rparr>] # more"
proof -
  let ?a = "next_addr s"
  let ?ap = "initial_params self h tools_arg ?a"
  let ?req = "initial_params self h tools_arg [\<lparr>role = ''user'', turn_content = Text query\<rparr>]"
  let ?call = "messages_create self ?ap
                 (snd (list_new [\<lparr>role = ''user'', turn_content = Text query\<rparr>] s))"
  have l1: "api_log (snd ?call) = api_log s @ [?req]"
    by (simp add: messages_create_simps list_new_simps resolve_initial_params)
  have l2: "\<exists>more. api_log (snd (handle_sequential_tool_execution self r ?ap tm 2 (snd ?call)))
              = api_log s @ ?req # more" for r tm
    using handle_sequential_log_prefix [of self r ?ap tm 2 "snd ?call"] l1 by auto
  have l3: "\<exists>more. api_log (snd (handle_tool_execution self r ?ap tm
              (snd (handle_sequential_tool_execution self r ?ap tm 2 (snd ?call)))))
              = api_log s @ ?req # more" for r tm
    using l2 [of r tm] by (auto simp add: handle_tool_execution_logs(1))
  show ?thesis
    using l1 l2 l3 by (simp add: generate_response_alt Let_def split: sum.splits)
qed

lemma handle_tool_execution_result:
  "fst (handle_tool_execution self r params tm s) =
     (case fst (client self (final_request self r params tm s)
                  (tools_world tm (tool_use_blocks r) (world s))) of
        Inl m \<Rightarrow> Inl (Raised m)
      | Inr final_response \<Rightarrow> first_text final_response)"
  "api_log (snd (handle_tool_execution self r params tm s)) =
     api_log s @ [final_request self r params tm s]"
  by (simp_all add: handle_tool_execution_alt Let_def messages_create_simps list_append_simps
        execute_tools_frame list_copy_simps resolve_def execute_tools_empty_iff
        execute_tools_results tool_outcomes_empty_iff final_request_def)

lemma two_round_run:
  assumes "stop_reason r0 = ''tool_use''" and "tool_use_blocks r0 \<noteq> []"
    and "messages_create self (next_params params a) (at_model_call tm a r0 s0) = (Inr r1, s1)"
    and "stop_reason r1 = ''tool_use''" and "tool_use_blocks r1 \<noteq> []"
    and "messages_create self (next_params params a) (at_model_call tm a r1 s1) = (Inr r2, s2)"
  shows "sequential_loop self params tm 2 a r0 0 s0 = (Exit r2, 2, s2)"
proof -
  have step1: "sequential_loop self params tm 2 a r0 0 s0 =
                 sequential_loop self params tm 2 a r1 1 s1"
    by (subst sequential_loop_call [OF _ assms(1,2)]) (simp_all add: assms(3))
  have step2: "sequential_loop self params tm 2 a r1 1 s1 =
                 sequential_loop self params tm 2 a r2 2 s2"
    by (subst sequential_loop_call [OF _ assms(4,5)]) (simp_all add: assms(6))
  have stop: "sequential_loop self params tm 2 a r2 2 s2 = (Exit r2, 2, s2)"
    by (rule sequential_loop_exit) simp
  show ?thesis using step1 step2 stop by simp
qed

lemma tools_world_mock: "tools_world mock_tool_manager bs w = w"
  by (induction bs arbitrary: w) (simp_all add: mock_tool_manager_def)

lemma scripted_call:
  assumes "world st = x # rest"
  shows "fst (messages_create (init scripted_client m) p st) = x"
    and "world (snd (messages_create (init scripted_client m) p st)) = rest"
  using assms by (simp_all add: messages_create_simps init_def scripted_client_def)

lemma digit_value_digit: "d < 10 \<Longrightarrow> digit_value (digit d) = d"
proof -
  assume "d < 10"
  then have "d = 0 \<or> d = 1 \<or> d = 2 \<or> d = 3 \<or> d = 4 \<or> d = 5 \<or> d = 6 \<or> d = 7 \<or> d = 8 \<or> d = 9"
    by arith
  then show ?thesis
    by (elim disjE) (simp_all add: digit_def digit_value_def)
qed

lemma decimal_value_snoc:
  "decimal_value (ds @ [c]) = 10 * decimal_value ds + digit_value c"
  by (simp add: decimal_value_def)

lemma decimal_value_str_nat: "decimal_value (str_nat n) = n"
proof (induction n rule: str_nat.induct)
  case (1 n)
  show ?case
  proof (cases "n < 10")
    case True
    then show ?thesis
      by (subst str_nat.simps) (simp add: decimal_value_def digit_value_digit)
  next
    case False
    then have "decimal_value (str_nat (n div 10)) = n div 10" using "1" by simp
    then show ?thesis using False
      by (subst str_nat.simps) (simp add: decimal_value_snoc digit_value_digit)
  qed
qed

lemma decimal_value_str_int: "0 \<le> i \<Longrightarrow> int (decimal_value (str_int i)) = i"
  by (simp add: str_int_def decimal_value_str_nat)

lemma final_return_cases:
  "content r = [] \<Longrightarrow> final_return r = Inr ''No response generated''"
  "content r = b # bs \<Longrightarrow> block_text b = Some t \<Longrightarrow> final_return r = Inr t"
  by (simp_all add: final_return_def attr_text_def)

lemma first_text_text:
  "content r = b # bs \<Longrightarrow> block_text b = Some t \<Longrightarrow> first_text r = Inr t"
  by (simp add: first_text_def attr_text_def)

lemma constant_client_call:
  "messages_create (init (constant_client r) m) p st =
     (Inr r, snd (messages_create (init (constant_client r) m) p st))"
  by (rule prod_eqI) (simp_all add: messages_create_simps init_def constant_client_def)

lemma request_at_model_call_eq:
  "resolve (heap (at_model_call tm msgs cur s)) (next_params params msgs) =
     request_with params (heap s msgs @ round_turns tm cur (world s))"
  by (simp add: resolve_def next_params_def request_with_def round_turns_def
        at_model_call_simps execute_tools_results list_append_simps)

lemma expected_requests_stop:
  assumes "\<not> (rc < max_rounds \<and> stop_reason cur = ''tool_use'') \<or> tool_use_blocks cur = []"
  shows "expected_requests (nat (max_rounds - rc)) self tm params conv cur w = []"
  using assms by (cases "nat (max_rounds - rc)") auto

lemma expected_requests_round:
  assumes "rc < max_rounds" and "stop_reason cur = ''tool_use''"
    and "tool_use_blocks cur \<noteq> []"
  shows "expected_requests (nat (max_rounds - rc)) self tm params conv cur w =
           request_with params (conv @ round_turns tm cur w) #
           (case client self (request_with params (conv @ round_turns tm cur w))
                   (tools_world tm (tool_use_blocks cur) w) of
              (Inr next_response, w') \<Rightarrow>
                expected_requests (nat (max_rounds - (rc + 1))) self tm params
                  (conv @ round_turns tm cur w) next_response w'
            | (Inl e, w') \<Rightarrow> [])"
proof -
  have "nat (max_rounds - rc) = Suc (nat (max_rounds - (rc + 1)))"
    using assms(1) by simp
  then show ?thesis using assms(2,3) by simp
qed

lemma model_call_outcome:
  assumes "messages_create self (next_params params msgs) (at_model_call tm msgs cur s)
             = (out, s4)"
  shows "client self (request_with params (heap s msgs @ round_turns tm cur (world s)))
           (tools_world tm (tool_use_blocks cur) (world s)) = (out, world s4)"
    and "heap s4 msgs = heap s msgs @ round_turns tm cur (world s)"
    and "api_log s4 = api_log s @
           [request_with params (heap s msgs @ round_turns tm cur (world s))]"
proof -
  let ?amc = "at_model_call tm msgs cur s"
  have o: "out = fst (messages_create self (next_params params msgs) ?amc)"
    and s4: "s4 = snd (messages_create self (next_params params msgs) ?amc)"
    using assms by simp_all
  show "client self (request_with params (heap s msgs @ round_turns tm cur (world s)))
           (tools_world tm (tool_use_blocks cur) (world s)) = (out, world s4)"
    by (rule prod_eqI)
       (simp_all add: o s4 messages_create_simps request_at_model_call_eq
          at_model_call_simps(5))
  show "heap s4 msgs = heap s msgs @ round_turns tm cur (world s)"
    by (simp add: s4 messages_create_simps at_model_call_simps round_turns_def
          execute_tools_results list_append_simps)
  show "api_log s4 = api_log s @
           [request_with params (heap s msgs @ round_turns tm cur (world s))]"
    by (simp add: s4 messages_create_simps request_at_model_call_eq at_model_call_simps(3))
qed

lemma sequential_loop_expected_requests:
  "api_log (snd (snd (sequential_loop self params tm max_rounds msgs cur rc s))) =
     api_log s @
       expected_requests (nat (max_rounds - rc)) self tm params (heap s msgs) cur (world s)"
proof (rule sequential_loop_rule [where P = "\<lambda>cur rc s res.
         api_log (snd (snd res)) = api_log s @
           expected_requests (nat (max_rounds - rc)) self tm params (heap s msgs) cur (world s)"])
  fix cur :: response and rc :: int and s :: "'a state"
  assume "\<not> (rc < max_rounds \<and> stop_reason cur = ''tool_use'')"
  then show "api_log (snd (snd (Exit cur, rc, s))) = api_log s @
           expected_requests (nat (max_rounds - rc)) self tm params (heap s msgs) cur (world s)"
    by (simp add: expected_requests_stop)
next
  fix cur :: response and rc :: int and s :: "'a state"
  assume "tool_use_blocks cur = []"
  then show "api_log (snd (snd (Exit cur, rc + 1,
            list_append msgs \<lparr>role = ''assistant'', turn_content = Blocks (content cur)\<rparr> s)))
          = api_log s @
           expected_requests (nat (max_rounds - rc)) self tm params (heap s msgs) cur (world s)"
    by (simp add: expected_requests_stop list_append_simps)
next
  fix cur :: response and rc :: int and s s4 :: "'a state" and e
  assume c: "rc < max_rounds" "stop_reason cur = ''tool_use''" "tool_use_blocks cur \<noteq> []"
    and call: "messages_create self (next_params params msgs) (at_model_call tm msgs cur s)
                  = (Inl e, s4)"
  show "api_log (snd (snd
          (Return (''Error in tool execution round '' @ str_int (rc + 1) @ '': '' @ e),
           rc + 1, s4))) = api_log s @
           expected_requests (nat (max_rounds - rc)) self tm params (heap s msgs) cur (world s)"
    by (simp add: expected_requests_round [OF c] model_call_outcome(1,3) [OF call])
next
  fix cur r' :: response and rc :: int and s s4 :: "'a state"
  let ?fin = "snd (snd (sequential_loop self params tm max_rounds msgs r' (rc + 1) s4))"
  assume c: "rc < max_rounds" "stop_reason cur = ''tool_use''" "tool_use_blocks cur \<noteq> []"
    and call: "messages_create self (next_params params msgs) (at_model_call tm msgs cur s)
                  = (Inr r', s4)"
    and IH: "api_log ?fin = api_log s4 @
           expected_requests (nat (max_rounds - (rc + 1))) self tm params (heap s4 msgs) r'
             (world s4)"
  show "api_log ?fin = api_log s @
           expected_requests (nat (max_rounds - rc)) self tm params (heap s msgs) cur (world s)"
    by (simp add: expected_requests_round [OF c] model_call_outcome [OF call] IH)
qed

lemma handle_sequential_expected_requests:
  "api_log (snd (handle_sequential_tool_execution self r params tm max_rounds s)) =
     api_log s @
       expected_requests (nat max_rounds) self tm params (heap s (messages params)) r (world s)"
  using sequential_loop_expected_requests [of self params tm max_rounds "next_addr s" r 0
          "snd (list_copy (messages params) s)"]
  by (simp add: handle_sequential_state list_copy_simps)

lemma sequential_loop_tool_log_prefix:
  "\<exists>more. tool_log (snd (snd (sequential_loop self params tm max_rounds msgs cur rc s))) =
            tool_log s @ more"
proof (rule sequential_loop_rule [where P = "\<lambda>cur rc s res.
         \<exists>more. tool_log (snd (snd res)) = tool_log s @ more"])
  fix cur :: response and rc :: int and s :: "'a state"
  show "\<exists>more. tool_log (snd (snd (Exit cur, rc, s))) = tool_log s @ more"
    by simp
  show "\<exists>more. tool_log (snd (snd (Exit cur, rc + 1,
            list_append msgs \<lparr>role = ''assistant'', turn_content = Blocks (content cur)\<rparr> s)))
          = tool_log s @ more"
    by (simp add: list_append_simps)
next
  fix cur :: response and rc :: int and s s4 :: "'a state" and e
  assume call: "messages_create self (next_params params msgs) (at_model_call tm msgs cur s)
                  = (Inl e, s4)"
  show "\<exists>more. tool_log (snd (snd
          (Return (''Error in tool execution round '' @ str_int (rc + 1) @ '': '' @ e),
           rc + 1, s4))) = tool_log s @ more"
    by (simp add: after_model_call(2) [OF call])
next
  fix cur r' :: response and rc :: int and s s4 :: "'a state"
  let ?fin = "snd (snd (sequential_loop self params tm max_rounds msgs r' (rc + 1) s4))"
  assume call: "messages_create self (next_params params msgs) (at_model_call tm msgs cur s)
                  = (Inr r', s4)"
    and IH: "\<exists>more. tool_log ?fin = tool_log s4 @ more"
  show "\<exists>more. tool_log ?fin = tool_log s @ more"
    using IH by (auto simp add: after_model_call(2) [OF call])
qed

lemma handle_sequential_first_round_tools:
  assumes "stop_reason r = ''tool_use''" and "0 < max_rounds"
  shows "\<exists>more. tool_log (snd (handle_sequential_tool_execution self r params tm max_rounds s)) =
           tool_log s @ tool_calls r @ more"
proof -
  let ?a = "next_addr s"
  let ?s0 = "snd (list_copy (messages params) s)"
  have t0: "tool_log ?s0 = tool_log s" by (simp add: list_copy_simps)
  show ?thesis
  proof (cases "tool_use_blocks r = []")
    case True
    then have "tool_calls r = []" by (simp add: tool_calls_def)
    then show ?thesis
      using sequential_loop_tool_log_prefix [of self params tm max_rounds ?a r 0 ?s0]
      by (simp add: handle_sequential_state t0)
  next
    case False
    let ?call = "messages_create self (next_params params ?a) (at_model_call tm ?a r ?s0)"
    obtain out s4 where call: "?call = (out, s4)" by (cases ?call)
    have t4: "tool_log s4 = tool_log s @ tool_calls r"
      using after_model_call(2) [OF call] by (simp add: t0)
    have unf: "sequential_loop self params tm max_rounds ?a r 0 ?s0 =
          (case (out, s4) of
              (Inl e, s4) \<Rightarrow>
                (Return (''Error in tool execution round '' @ str_int (0 + 1)
                           @ '': '' @ e), 0 + 1, s4)
            | (Inr next_response, s4) \<Rightarrow>
                sequential_loop self params tm max_rounds ?a next_response (0 + 1) s4)"
      using sequential_loop_call [OF assms(2,1) False, of self params tm ?a ?s0] call
      by simp
    show ?thesis
    proof (cases out)
      case (Inl e)
      then show ?thesis using unf t4 by (simp add: handle_sequential_state)
    next
      case (Inr r')
      then show ?thesis
        using unf t4 sequential_loop_tool_log_prefix [of self params tm max_rounds ?a r' 1 s4]
        by (auto simp add: handle_sequential_state)
    qed
  qed
qed

section \<open>The claims\<close>

text \<open>
  Claim C1, as stated, fails: a client whose every response has the stop reason
  \<open>tool_use\<close> may answer with a response that holds no tool-use block. The first
  iteration then executes no tool and leaves the loop by its \<^verbatim>\<open>break\<close>: with
  \<open>max_rounds = 2\<close> the handler makes no model call at all.
\<close>

theorem always_tool_use_counterexample:
  "stop_reason empty_tool_use_response = ''tool_use''
   \<and> api_log (snd (handle_sequential_tool_execution
          (init (constant_client empty_tool_use_response) ''test-model'')
          empty_tool_use_response test_params mock_tool_manager 2 (test_state ()))) = []
   \<and> tool_log (snd (handle_sequential_tool_execution
          (init (constant_client empty_tool_use_response) ''test-model'')
          empty_tool_use_response test_params mock_tool_manager 2 (test_state ()))) = []
   \<and> fst (handle_sequential_tool_execution
          (init (constant_client empty_tool_use_response) ''test-model'')
          empty_tool_use_response test_params mock_tool_manager 2 (test_state ()))
       = Inr ''No response generated''"
proof -
  let ?self = "init (constant_client empty_tool_use_response) ''test-model'' :: unit AIGenerator"
  let ?a = "fst (list_copy (messages test_params) (test_state ()))"
  let ?s0 = "snd (list_copy (messages test_params) (test_state ()))"
  have c: "(0::int) < 2" "stop_reason empty_tool_use_response = ''tool_use''"
    "tool_use_blocks empty_tool_use_response = []"
    by (simp_all add: tool_use_blocks_def empty_tool_use_response_def)
  have l: "sequential_loop ?self test_params mock_tool_manager 2 ?a empty_tool_use_response 0 ?s0 =
      (Exit empty_tool_use_response, 0 + 1,
       list_append ?a \<lparr>role = ''assistant'',
                turn_content = Blocks (content empty_tool_use_response)\<rparr> ?s0)"
    by (rule sequential_loop_break [OF c])
  have h: "handle_sequential_tool_execution ?self empty_tool_use_response test_params
             mock_tool_manager 2 (test_state ()) =
           (final_return empty_tool_use_response,
            list_append ?a \<lparr>role = ''assistant'',
                turn_content = Blocks (content empty_tool_use_response)\<rparr> ?s0)"
    by (simp add: handle_sequential_tool_execution_def loop_then_return_def l split_beta)
  show ?thesis
    by (simp add: h c(2) list_append_simps list_copy_def list_new_simps final_return_def)
       (simp add: test_state_def empty_tool_use_response_def)
qed

text \<open>
  Claim C1, amended. For a client whose every response has the stop reason \<open>tool_use\<close>
  and holds at least one tool-use block, and such an initial response, the handler with
  \<open>max_rounds = 2\<close> runs its loop body exactly twice: it makes exactly two model calls
  (answered by \<open>r1\<close> and \<open>r2\<close>), executes the tool calls of the initial response and
  of \<open>r1\<close> and no others, and leaves the loop with round count 2, never running a
  third time. When the first content block of \<open>r2\<close>, the last response received,
  carries a text, the handler returns that text.
\<close>

theorem sequential_round_bound:
  assumes always: "\<forall>req w. \<exists>r w'. client self req w = (Inr r, w')
              \<and> stop_reason r = ''tool_use'' \<and> tool_use_blocks r \<noteq> []"
    and init: "stop_reason r0 = ''tool_use''" "tool_use_blocks r0 \<noteq> []"
    and copy: "list_copy (messages params) s = (a, s0)"
  shows "\<exists>r1 r2 s1 s2.
      messages_create self (next_params params a) (at_model_call tm a r0 s0) = (Inr r1, s1)
    \<and> messages_create self (next_params params a) (at_model_call tm a r1 s1) = (Inr r2, s2)
    \<and> sequential_loop self params tm 2 a r0 0 s0 = (Exit r2, 2, s2)
    \<and> snd (handle_sequential_tool_execution self r0 params tm 2 s) = s2
    \<and> (\<forall>b bs t. content r2 = b # bs \<and> block_text b = Some t \<longrightarrow>
          fst (handle_sequential_tool_execution self r0 params tm 2 s) = Inr t)
    \<and> api_log s2 = api_log s @
          [resolve (heap (at_model_call tm a r0 s0)) (next_params params a),
           resolve (heap (at_model_call tm a r1 s1)) (next_params params a)]
    \<and> tool_log s2 = tool_log s @ tool_calls r0 @ tool_calls r1"
proof -
  obtain r1 s1 where c1:
      "messages_create self (next_params params a) (at_model_call tm a r0 s0) = (Inr r1, s1)"
    and r1: "stop_reason r1 = ''tool_use''" "tool_use_blocks r1 \<noteq> []"
    using always_tool_use_call [OF always] by blast
  obtain r2 s2 where c2:
      "messages_create self (next_params params a) (at_model_call tm a r1 s1) = (Inr r2, s2)"
    using always_tool_use_call [OF always] by blast
  have step1: "sequential_loop self params tm 2 a r0 0 s0 =
                 sequential_loop self params tm 2 a r1 1 s1"
    by (subst sequential_loop_call [OF _ init]) (simp_all add: c1)
  have step2: "sequential_loop self params tm 2 a r1 1 s1 =
                 sequential_loop self params tm 2 a r2 2 s2"
    by (subst sequential_loop_call [OF _ r1]) (simp_all add: c2)
  have stop: "sequential_loop self params tm 2 a r2 2 s2 = (Exit r2, 2, s2)"
    by (rule sequential_loop_exit) simp
  have loop: "sequential_loop self params tm 2 a r0 0 s0 = (Exit r2, 2, s2)"
    using step1 step2 stop by simp
  have res: "handle_sequential_tool_execution self r0 params tm 2 s = (final_return r2, s2)"
    by (simp add: handle_sequential_tool_execution_def copy loop_then_return_def loop)
  have s1_eq: "s1 = snd (messages_create self (next_params params a) (at_model_call tm a r0 s0))"
    and s2_eq: "s2 = snd (messages_create self (next_params params a) (at_model_call tm a r1 s1))"
    using c1 c2 by simp_all
  have s0_logs: "api_log s0 = api_log s" "tool_log s0 = tool_log s"
    using copy list_new_simps(5,6) [of "heap s (messages params)" s]
    by (simp_all add: list_copy_def)
  have a1: "api_log s1 = api_log s @
      [resolve (heap (at_model_call tm a r0 s0)) (next_params params a)]"
    and t1: "tool_log s1 = tool_log s @ tool_calls r0"
    by (simp_all add: s1_eq messages_create_simps at_model_call_simps s0_logs)
  have a2: "api_log s2 = api_log s1 @
      [resolve (heap (at_model_call tm a r1 s1)) (next_params params a)]"
    and t2: "tool_log s2 = tool_log s1 @ tool_calls r1"
    by (simp_all add: s2_eq messages_create_simps at_model_call_simps)
  have st: "snd (handle_sequential_tool_execution self r0 params tm 2 s) = s2"
    by (simp add: res)
  have ret: "\<forall>b bs t. content r2 = b # bs \<and> block_text b = Some t \<longrightarrow>
          fst (handle_sequential_tool_execution self r0 params tm 2 s) = Inr t"
    by (auto simp add: res final_return_cases(2))
  have a2': "api_log s2 = api_log s @
          [resolve (heap (at_model_call tm a r0 s0)) (next_params params a),
           resolve (heap (at_model_call tm a r1 s1)) (next_params params a)]"
    using a1 a2 by simp
  have t2': "tool_log s2 = tool_log s @ tool_calls r0 @ tool_calls r1"
    using t1 t2 by simp
  show ?thesis
    using c1 c2 loop st ret a2' t2' by blast
qed

theorem sequential_round_bound_witness:
  "fst (handle_sequential_tool_execution
          (init (constant_client announced_tool_use_response) ''test-model'')
          announced_tool_use_response test_params mock_tool_manager 2 (test_state ()))
     = Inr ''Let me search.''
   \<and> length (api_log (snd (handle_sequential_tool_execution
          (init (constant_client announced_tool_use_response) ''test-model'')
          announced_tool_use_response test_params mock_tool_manager 2 (test_state ())))) = 2
   \<and> tool_log (snd (handle_sequential_tool_execution
          (init (constant_client announced_tool_use_response) ''test-model'')
          announced_tool_use_response test_params mock_tool_manager 2 (test_state ())))
     = [(''search_course_content'', [(''query'', ''test'')]),
        (''search_course_content'', [(''query'', ''test'')])]"
proof -
  let ?r = announced_tool_use_response
  let ?self = "init (constant_client ?r) ''test-model'' :: unit AIGenerator"
  let ?a = "fst (list_copy (messages test_params) (test_state ()))"
  let ?s0 = "snd (list_copy (messages test_params) (test_state ()))"
  have blocks: "tool_use_blocks ?r = [tool_block]"
    by (simp add: tool_use_blocks_def announced_tool_use_response_def tool_block_def
          text_block_def)
  have always: "\<forall>req w. \<exists>r w'. client ?self req w = (Inr r, w')
              \<and> stop_reason r = ''tool_use'' \<and> tool_use_blocks r \<noteq> []"
    by (simp add: init_def constant_client_def blocks)
       (simp add: announced_tool_use_response_def)
  have init: "stop_reason ?r = ''tool_use''" "tool_use_blocks ?r \<noteq> []"
    by (simp add: announced_tool_use_response_def, simp add: blocks)
  have copy: "list_copy (messages test_params) (test_state ()) = (?a, ?s0)"
    by simp
  have resp: "fst (messages_create ?self p st) = Inr ?r" for p st
    by (simp add: messages_create_simps init_def constant_client_def)
  obtain r1 r2 s1 s2 where
      c1: "messages_create ?self (next_params test_params ?a)
             (at_model_call mock_tool_manager ?a ?r ?s0) = (Inr r1, s1)"
    and c2: "messages_create ?self (next_params test_params ?a)
             (at_model_call mock_tool_manager ?a r1 s1) = (Inr r2, s2)"
    and st: "snd (handle_sequential_tool_execution ?self ?r test_params mock_tool_manager 2
             (test_state ())) = s2"
    and ret: "\<forall>b bs t. content r2 = b # bs \<and> block_text b = Some t \<longrightarrow>
          fst (handle_sequential_tool_execution ?self ?r test_params mock_tool_manager 2
             (test_state ())) = Inr t"
    and al: "api_log s2 = api_log (test_state ()) @
          [resolve (heap (at_model_call mock_tool_manager ?a ?r ?s0)) (next_params test_params ?a),
           resolve (heap (at_model_call mock_tool_manager ?a r1 s1)) (next_params test_params ?a)]"
    and tl: "tool_log s2 = tool_log (test_state ()) @ tool_calls ?r @ tool_calls r1"
    using sequential_round_bound [OF always init copy, of mock_tool_manager] by blast
  have r1: "r1 = ?r" using resp [of "next_params test_params ?a"
      "at_model_call mock_tool_manager ?a ?r ?s0"] c1 by simp
  have r2: "r2 = ?r" using resp [of "next_params test_params ?a"
      "at_model_call mock_tool_manager ?a r1 s1"] c2 by simp
  have fin: "fst (handle_sequential_tool_execution ?self ?r test_params mock_tool_manager 2
             (test_state ())) = Inr ''Let me search.''"
    using ret by (simp add: r2 announced_tool_use_response_def text_block_def)
  have calls: "tool_calls ?r = [(''search_course_content'', [(''query'', ''test'')])]"
    by (simp add: tool_calls_def blocks) (simp add: tool_block_def)
  have empty: "api_log (test_state ()) = []" "tool_log (test_state ()) = []"
    by (simp_all add: test_state_def)
  show ?thesis
    by (simp add: st r1 fin al tl calls empty)
qed

text \<open>
  Claim C2. \<^verbatim>\<open>_execute_tools\<close> returns exactly one tool result for each tool-use block
  of the response, in the order of the blocks, each with the \<open>id\<close> of its block as
  \<open>tool_use_id\<close>. The content of a result is what the call returned, or
  \<^verbatim>\<open>"Tool execution error: <message>"\<close> when the call raised; a call that raises
  neither ends the loop nor drops a result, and every tool-use block is executed once
  (the log of calls grows by the calls of the response, in order).
\<close>

theorem execute_tools_one_result_per_tool_use:
  "fst (execute_tools r tm s) =
     map2 as_tool_result (tool_use_blocks r) (tool_outcomes tm (tool_use_blocks r) (world s))
   \<and> length (tool_outcomes tm (tool_use_blocks r) (world s)) = length (tool_use_blocks r)
   \<and> map tool_use_id (fst (execute_tools r tm s)) = map block_id (tool_use_blocks r)
   \<and> tool_log (snd (execute_tools r tm s)) = tool_log s @ tool_calls r"
proof -
  have res: "fst (execute_tools r tm s) =
     map2 as_tool_result (tool_use_blocks r) (tool_outcomes tm (tool_use_blocks r) (world s))"
    by (simp add: execute_tools_def tool_use_blocks_def execute_tools_loop_results)
  have len: "length (tool_outcomes tm (tool_use_blocks r) (world s)) = length (tool_use_blocks r)"
    by (rule length_tool_outcomes)
  have ids: "map tool_use_id (map2 as_tool_result bs os) = map block_id bs"
    if "length os = length bs" for bs :: "content_block list" and os
    using that by (induction bs os rule: list_induct2') (simp_all add: as_tool_result_def)
  have lg: "tool_log (snd (execute_tools r tm s)) = tool_log s @ tool_calls r"
    by (simp add: execute_tools_def tool_calls_def tool_use_blocks_def execute_tools_loop_log)
  show ?thesis using res len ids [OF len] lg by simp
qed

theorem execute_tools_one_result_per_tool_use_witness:
  "fst (execute_tools mixed_response mock_tool_manager (test_state ())) =
     [\<lparr>result_type = ''tool_result'', tool_use_id = ''tool_0'',
       result_content = ''Tool execution error: Tool failed''\<rparr>,
      \<lparr>result_type = ''tool_result'', tool_use_id = ''tool_1'',
       result_content = ''Mock search results''\<rparr>]
   \<and> tool_log (snd (execute_tools mixed_response mock_tool_manager (test_state ()))) =
     [(''failing_tool'', []), (''search_course_content'', [(''query'', ''test'')])]"
proof -
  have blocks: "tool_use_blocks mixed_response = [failing_block, tool_block]"
    by (simp add: tool_use_blocks_def mixed_response_def failing_block_def tool_block_def
          text_block_def)
  have outs: "tool_outcomes mock_tool_manager [failing_block, tool_block] w =
                [Inl ''Tool failed'', Inr ''Mock search results'']" for w :: unit
    by (simp add: mock_tool_manager_def failing_block_def tool_block_def)
  show ?thesis
    using execute_tools_one_result_per_tool_use [of mixed_response mock_tool_manager "test_state ()"]
    by (simp add: blocks outs tool_calls_def as_tool_result_def)
       (simp add: failing_block_def tool_block_def test_state_def mock_tool_manager_def)
qed

text \<open>
  Claim C3, as stated, fails: the text of the fallback call's first content block is not
  always returned. With a model that asks for tools in every response, the sequential
  handler raises at its round bound and the single-round handler runs; the response to
  its call begins with a tool-use block, so \<^verbatim>\<open>generate_response\<close> returns no text
  but raises. By then the tool call of the initial response has been executed twice,
  once by each handler (the log holds three calls: two rounds and the fallback).
\<close>

theorem fallback_no_text_counterexample:
  "stop_reason tool_use_response = ''tool_use''
   \<and> fst (handle_sequential_tool_execution
          (init (constant_client tool_use_response) ''test-model'') tool_use_response
          (initial_params (init (constant_client tool_use_response) ''test-model'' :: unit AIGenerator) None
             (Some [search_tool]) (next_addr (test_state ())))
          mock_tool_manager 2
          (snd (messages_create (init (constant_client tool_use_response) ''test-model'')
             (initial_params (init (constant_client tool_use_response) ''test-model'' :: unit AIGenerator) None
                (Some [search_tool]) (next_addr (test_state ())))
             (snd (list_new [\<lparr>role = ''user'', turn_content = Text ''Test query''\<rparr>]
                     (test_state ()))))))
       = Inl AttributeError
   \<and> fst (generate_response (init (constant_client tool_use_response) ''test-model'')
          ''Test query'' None (Some [search_tool]) (Some mock_tool_manager) (test_state ()))
       = Inl AttributeError
   \<and> length (tool_log (snd (generate_response
          (init (constant_client tool_use_response) ''test-model'')
          ''Test query'' None (Some [search_tool]) (Some mock_tool_manager) (test_state ()))))
       = 3"
proof -
  let ?r = tool_use_response
  let ?self = "init (constant_client ?r) ''test-model'' :: unit AIGenerator"
  let ?ini = "test_state () :: unit state"
  let ?ap = "initial_params ?self None (Some [search_tool]) (next_addr ?ini)"
  let ?c0 = "messages_create ?self ?ap
               (snd (list_new [\<lparr>role = ''user'', turn_content = Text ''Test query''\<rparr>] ?ini))"
  let ?a = "next_addr (snd ?c0)"
  let ?sc = "snd (list_copy (messages ?ap) (snd ?c0))"
  let ?c1 = "messages_create ?self (next_params ?ap ?a) (at_model_call mock_tool_manager ?a ?r ?sc)"
  let ?c2 = "messages_create ?self (next_params ?ap ?a)
               (at_model_call mock_tool_manager ?a ?r (snd ?c1))"
  have stop: "stop_reason ?r = ''tool_use''" and blocks: "tool_use_blocks ?r \<noteq> []"
    by (simp_all add: tool_use_response_def tool_use_blocks_def tool_block_def)
  have calls: "length (tool_calls ?r) = 1"
    by (simp add: tool_calls_def tool_use_response_def tool_use_blocks_def tool_block_def)
  have f: "fst (messages_create ?self p st) = Inr ?r" for p st
    by (simp add: messages_create_simps init_def constant_client_def)
  have cl: "fst (client ?self req w) = Inr ?r" for req w
    by (simp add: init_def constant_client_def)
  have run: "sequential_loop ?self ?ap mock_tool_manager 2 ?a ?r 0 ?sc = (Exit ?r, 2, snd ?c2)"
    by (rule two_round_run [OF stop blocks constant_client_call stop blocks
              constant_client_call])
  have fin: "final_return ?r = Inl AttributeError"
    by (simp add: final_return_def attr_text_def tool_use_response_def tool_block_def)
  have ft: "first_text ?r = Inl AttributeError"
    by (simp add: first_text_def attr_text_def tool_use_response_def tool_block_def)
  have hs: "handle_sequential_tool_execution ?self ?r ?ap mock_tool_manager 2 (snd ?c0) =
              (Inl AttributeError, snd ?c2)"
    by (simp add: handle_sequential_tool_execution_def loop_then_return_def split_beta
          list_copy_simps run fin)
  have g: "generate_response ?self ''Test query'' None (Some [search_tool])
             (Some mock_tool_manager) ?ini =
           handle_tool_execution ?self ?r ?ap mock_tool_manager (snd ?c2)"
    by (simp add: generate_response_alt Let_def f stop hs)
  have t0: "tool_log (snd ?c0) = []"
    by (simp add: messages_create_simps list_new_simps test_state_def)
  have t1: "length (tool_log (snd ?c1)) = 1"
    using after_model_call(2) [OF constant_client_call, of ?r "''test-model''" ?ap ?a
            mock_tool_manager ?r ?sc]
    by (simp add: list_copy_simps t0 calls)
  have t2: "length (tool_log (snd ?c2)) = 2"
    using after_model_call(2) [OF constant_client_call, of ?r "''test-model''" ?ap ?a
            mock_tool_manager ?r "snd ?c1"]
    by (simp add: t1 calls)
  have k1: "fst (handle_sequential_tool_execution ?self ?r ?ap mock_tool_manager 2 (snd ?c0)) =
              Inl AttributeError"
    using hs by simp
  have k2: "fst (generate_response ?self ''Test query'' None (Some [search_tool])
             (Some mock_tool_manager) ?ini) = Inl AttributeError"
    by (simp add: g handle_tool_execution_result(1) cl ft)
  have k3: "length (tool_log (snd (generate_response ?self ''Test query'' None
             (Some [search_tool]) (Some mock_tool_manager) ?ini))) = 3"
    by (simp add: g handle_tool_execution_logs(2) t2 calls)
  show ?thesis
    using stop k1 k2 k3 by blast
qed

text \<open>
  Claim C3, amended. When the model's first response asks for tool use and the
  sequential handler raises (in state \<open>s2\<close>), \<^verbatim>\<open>generate_response\<close> catches the
  exception and returns what the single-round handler returns for the initial response
  from \<open>s2\<close>. That handler executes the tool calls of the initial response once more
  (the sequential handler has executed them in its first round already), and makes
  exactly one further model call, whose request holds the user turn, the assistant turn
  of the initial response and, when there are tool results, the turn of the results, and
  neither tool definitions nor tool_choice. An exception of that call leaves
  \<^verbatim>\<open>generate_response\<close>; when the call returns a response whose first content block
  carries a text, that text is returned.
\<close>

theorem fallback_to_single_round:
  assumes "messages_create self (initial_params self h tools_arg (next_addr s))
             (snd (list_new [\<lparr>role = ''user'', turn_content = Text query\<rparr>] s)) = (Inr r, s1)"
    and "stop_reason r = ''tool_use''"
    and "handle_sequential_tool_execution self r (initial_params self h tools_arg (next_addr s))
           tm 2 s1 = (Inl e, s2)"
  shows "generate_response self query h tools_arg (Some tm) s =
           handle_tool_execution self r (initial_params self h tools_arg (next_addr s)) tm s2
    \<and> (\<exists>later. tool_log s2 = tool_log s @ tool_calls r @ later
          \<and> tool_log (snd (generate_response self query h tools_arg (Some tm) s)) =
              tool_log s @ tool_calls r @ later @ tool_calls r)
    \<and> api_log (snd (generate_response self query h tools_arg (Some tm) s)) =
        api_log s2 @
          [final_request self r (initial_params self h tools_arg (next_addr s)) tm s2]
    \<and> tools (final_request self r (initial_params self h tools_arg (next_addr s)) tm s2) = None
    \<and> tool_choice (final_request self r (initial_params self h tools_arg (next_addr s)) tm s2)
        = None
    \<and> messages (final_request self r (initial_params self h tools_arg (next_addr s)) tm s2) =
        \<lparr>role = ''user'', turn_content = Text query\<rparr> #
        \<lparr>role = ''assistant'', turn_content = Blocks (content r)\<rparr> #
        (if tool_use_blocks r \<noteq> [] then
           [\<lparr>role = ''user'', turn_content = ToolResults
               (map2 as_tool_result (tool_use_blocks r)
                  (tool_outcomes tm (tool_use_blocks r) (world s2)))\<rparr>]
         else [])
    \<and> (\<forall>m. fst (client self
                   (final_request self r (initial_params self h tools_arg (next_addr s)) tm s2)
                   (tools_world tm (tool_use_blocks r) (world s2))) = Inl m \<longrightarrow>
          fst (generate_response self query h tools_arg (Some tm) s) = Inl (Raised m))
    \<and> (\<forall>fr b bs t.
          fst (client self
                 (final_request self r (initial_params self h tools_arg (next_addr s)) tm s2)
                 (tools_world tm (tool_use_blocks r) (world s2))) = Inr fr
          \<and> content fr = b # bs \<and> block_text b = Some t \<longrightarrow>
          fst (generate_response self query h tools_arg (Some tm) s) = Inr t)"
proof -
  let ?ap = "initial_params self h tools_arg (next_addr s)"
  let ?s0 = "snd (list_new [\<lparr>role = ''user'', turn_content = Text query\<rparr>] s)"
  let ?gen = "generate_response self query h tools_arg (Some tm) s"
  let ?out = "fst (client self (final_request self r ?ap tm s2)
                     (tools_world tm (tool_use_blocks r) (world s2)))"
  have g: "?gen = handle_tool_execution self r ?ap tm s2"
    using assms by (simp add: generate_response_alt Let_def)
  have s1: "s1 = snd (messages_create self ?ap ?s0)"
    and s2: "s2 = snd (handle_sequential_tool_execution self r ?ap tm 2 s1)"
    using assms(1,3) by simp_all
  have t1: "tool_log s1 = tool_log s"
    and h1: "heap s1 (next_addr s) = [\<lparr>role = ''user'', turn_content = Text query\<rparr>]"
    and n1: "next_addr s < next_addr s1"
    by (simp_all add: s1 messages_create_simps list_new_simps)
  obtain later where t2: "tool_log s2 = tool_log s @ tool_calls r @ later"
    using handle_sequential_first_round_tools [OF assms(2), of 2 self ?ap tm s1]
    by (auto simp add: s2 t1)
  have tg: "tool_log (snd ?gen) = tool_log s @ tool_calls r @ later @ tool_calls r"
    by (simp add: g handle_tool_execution_logs(2) t2)
  have ag: "api_log (snd ?gen) = api_log s2 @ [final_request self r ?ap tm s2]"
    by (simp add: g handle_tool_execution_result(2))
  have none: "tools (final_request self r ?ap tm s2) = None"
    "tool_choice (final_request self r ?ap tm s2) = None"
    by (simp_all add: final_request_def)
  have ma: "messages ?ap = next_addr s"
    by (simp add: initial_params_def Let_def split: option.splits)
  have h2: "heap s2 (next_addr s) = [\<lparr>role = ''user'', turn_content = Text query\<rparr>]"
    using handle_sequential_heap(2) [OF n1, of self r ?ap tm 2] h1 by (simp add: s2)
  have ms: "messages (final_request self r ?ap tm s2) =
        \<lparr>role = ''user'', turn_content = Text query\<rparr> #
        \<lparr>role = ''assistant'', turn_content = Blocks (content r)\<rparr> #
        (if tool_use_blocks r \<noteq> [] then
           [\<lparr>role = ''user'', turn_content = ToolResults
               (map2 as_tool_result (tool_use_blocks r)
                  (tool_outcomes tm (tool_use_blocks r) (world s2)))\<rparr>]
         else [])"
    by (simp add: final_request_def ma h2)
  have res: "fst ?gen = (case ?out of Inl m \<Rightarrow> Inl (Raised m)
                          | Inr final_response \<Rightarrow> first_text final_response)"
    by (simp add: g handle_tool_execution_result(1))
  have raised: "\<forall>m. ?out = Inl m \<longrightarrow> fst ?gen = Inl (Raised m)"
    by (simp add: res)
  have returned: "\<forall>fr b bs t. ?out = Inr fr \<and> content fr = b # bs \<and> block_text b = Some t
                    \<longrightarrow> fst ?gen = Inr t"
    by (auto simp add: res first_text_text)
  show ?thesis
    using g t2 tg ag none ms raised returned by blast
qed

theorem fallback_to_single_round_witness:
  "fst (generate_response (init scripted_client ''test-model'') ''Test query'' None
          (Some [search_tool]) (Some mock_tool_manager) (test_state fallback_script))
     = Inr ''Fallback response''
   \<and> length (api_log (snd (generate_response (init scripted_client ''test-model'')
          ''Test query'' None (Some [search_tool]) (Some mock_tool_manager)
          (test_state fallback_script)))) = 4
   \<and> tools (last (api_log (snd (generate_response (init scripted_client ''test-model'')
          ''Test query'' None (Some [search_tool]) (Some mock_tool_manager)
          (test_state fallback_script))))) = None"
proof -
  let ?self = "init scripted_client ''test-model''"
  let ?ini = "test_state fallback_script"
  let ?r = tool_use_response
  let ?fb = "text_response ''Fallback response''"
  let ?ap = "initial_params ?self None (Some [search_tool]) (next_addr ?ini)"
  let ?c0 = "messages_create ?self ?ap
               (snd (list_new [\<lparr>role = ''user'', turn_content = Text ''Test query''\<rparr>] ?ini))"
  have w0: "world (snd (list_new [\<lparr>role = ''user'', turn_content = Text ''Test query''\<rparr>] ?ini))
              = Inr ?r # [Inr ?r, Inr ?r, Inr ?fb]"
    by (simp add: list_new_simps test_state_def fallback_script_def)
  obtain s1 where c0: "?c0 = (Inr ?r, s1)"
    using scripted_call(1) [OF w0, of "''test-model''" ?ap] by (cases ?c0) simp
  have ws1: "world s1 = Inr ?r # [Inr ?r, Inr ?fb]"
    using scripted_call(2) [OF w0, of "''test-model''" ?ap] c0 by simp
  have l1: "api_log s1 = [resolve (heap (snd (list_new
               [\<lparr>role = ''user'', turn_content = Text ''Test query''\<rparr>] ?ini))) ?ap]"
    using messages_create_simps(5) [of ?self ?ap
            "snd (list_new [\<lparr>role = ''user'', turn_content = Text ''Test query''\<rparr>] ?ini)"] c0
    by (simp add: list_new_simps) (simp add: test_state_def)
  let ?a = "next_addr s1"
  let ?sc = "snd (list_copy (messages ?ap) s1)"
  let ?c1 = "messages_create ?self (next_params ?ap ?a) (at_model_call mock_tool_manager ?a ?r ?sc)"
  have w1: "world (at_model_call mock_tool_manager ?a ?r ?sc) = Inr ?r # [Inr ?r, Inr ?fb]"
    by (simp add: at_model_call_simps tools_world_mock list_copy_simps ws1)
  obtain s2 where c1: "?c1 = (Inr ?r, s2)"
    using scripted_call(1) [OF w1, of "''test-model''" "next_params ?ap ?a"] by (cases ?c1) simp
  have ws2: "world s2 = Inr ?r # [Inr ?fb]"
    using scripted_call(2) [OF w1, of "''test-model''" "next_params ?ap ?a"] c1 by simp
  have l2: "length (api_log s2) = 2"
    using after_model_call(1) [OF c1] by (simp add: list_copy_simps l1)
  let ?c2 = "messages_create ?self (next_params ?ap ?a) (at_model_call mock_tool_manager ?a ?r s2)"
  have w2: "world (at_model_call mock_tool_manager ?a ?r s2) = Inr ?r # [Inr ?fb]"
    by (simp add: at_model_call_simps tools_world_mock ws2)
  obtain s3 where c2: "?c2 = (Inr ?r, s3)"
    using scripted_call(1) [OF w2, of "''test-model''" "next_params ?ap ?a"] by (cases ?c2) simp
  have ws3: "world s3 = [Inr ?fb]"
    using scripted_call(2) [OF w2, of "''test-model''" "next_params ?ap ?a"] c2 by simp
  have l3: "length (api_log s3) = 3"
    using after_model_call(1) [OF c2] by (simp add: l2)
  have stop: "stop_reason ?r = ''tool_use''" and blocks: "tool_use_blocks ?r \<noteq> []"
    by (simp_all add: tool_use_response_def tool_use_blocks_def tool_block_def)
  have run: "sequential_loop ?self ?ap mock_tool_manager 2 ?a ?r 0 ?sc = (Exit ?r, 2, s3)"
    by (rule two_round_run [OF stop blocks c1 stop blocks c2])
  have fin: "final_return ?r = Inl AttributeError"
    by (simp add: final_return_def attr_text_def tool_use_response_def tool_block_def)
  have hs: "handle_sequential_tool_execution ?self ?r ?ap mock_tool_manager 2 s1 =
              (Inl AttributeError, s3)"
    by (simp add: handle_sequential_tool_execution_def loop_then_return_def split_beta
          list_copy_simps run fin)
  have cl: "fst (client ?self req (tools_world mock_tool_manager bs (world s3))) = Inr ?fb"
    for req bs
    by (simp add: tools_world_mock ws3 init_def scripted_client_def)
  have ct: "content ?fb = text_block ''Fallback response'' # []"
    "block_text (text_block ''Fallback response'') = Some ''Fallback response''"
    by (simp_all add: text_response_def text_block_def)
  note fb = fallback_to_single_round [OF c0 stop hs]
  have res: "fst (generate_response ?self ''Test query'' None (Some [search_tool])
                    (Some mock_tool_manager) ?ini) = Inr ''Fallback response''"
    using fb cl ct by blast
  have api: "api_log (snd (generate_response ?self ''Test query'' None (Some [search_tool])
                    (Some mock_tool_manager) ?ini)) =
             api_log s3 @ [final_request ?self ?r ?ap mock_tool_manager s3]"
    using fb by blast
  have tls: "tools (final_request ?self ?r ?ap mock_tool_manager s3) = None"
    using fb by blast
  show ?thesis
    by (simp add: api tls res l3)
qed

text \<open>
  Claim C4. In a loop iteration whose model call raises an exception with message \<open>m\<close>
  (the iteration is entered, its response has a tool call, so the call is made), the
  handler returns \<^verbatim>\<open>"Error in tool execution round <k>: <m>"\<close>, where \<open>k\<close> is the round
  count after its increment, written in decimal digits: the string names round 1 in
  the first iteration and round 2 in the second. Nothing is propagated, and the state
  the handler ends in is the state right after the failed call: the log of model calls
  has grown by that one request and the log of tool calls by the calls of the current
  response only.
\<close>

theorem sequential_loop_model_call_error:
  assumes "round_count < max_rounds" and "stop_reason cur = ''tool_use''"
    and "tool_use_blocks cur \<noteq> []"
    and "fst (messages_create self (next_params params msgs) (at_model_call tm msgs cur s))
           = Inl m"
  shows "loop_then_return self params tm max_rounds msgs cur round_count s =
           (Inr (''Error in tool execution round '' @ str_int (round_count + 1) @ '': '' @ m),
            snd (messages_create self (next_params params msgs) (at_model_call tm msgs cur s)))
         \<and> (0 \<le> round_count \<longrightarrow>
              int (decimal_value (str_int (round_count + 1))) = round_count + 1)
         \<and> (round_count = 0 \<longrightarrow>
              fst (loop_then_return self params tm max_rounds msgs cur round_count s) =
                Inr (''Error in tool execution round 1: '' @ m))
         \<and> (round_count = 1 \<longrightarrow>
              fst (loop_then_return self params tm max_rounds msgs cur round_count s) =
                Inr (''Error in tool execution round 2: '' @ m))
         \<and> api_log (snd (loop_then_return self params tm max_rounds msgs cur round_count s)) =
             api_log s @ [resolve (heap (at_model_call tm msgs cur s)) (next_params params msgs)]
         \<and> tool_log (snd (loop_then_return self params tm max_rounds msgs cur round_count s)) =
             tool_log s @ tool_calls cur"
proof -
  let ?call = "messages_create self (next_params params msgs) (at_model_call tm msgs cur s)"
  have call: "?call = (Inl m, snd ?call)"
    using assms(4) by (cases ?call) simp
  have loop: "sequential_loop self params tm max_rounds msgs cur round_count s =
       (Return (''Error in tool execution round '' @ str_int (round_count + 1) @ '': '' @ m),
        round_count + 1, snd ?call)"
    by (subst sequential_loop_call [OF assms(1,2,3)], subst call) simp
  have res: "loop_then_return self params tm max_rounds msgs cur round_count s =
       (Inr (''Error in tool execution round '' @ str_int (round_count + 1) @ '': '' @ m),
        snd ?call)"
    by (simp add: loop_then_return_def loop)
  have dec: "0 \<le> round_count \<longrightarrow>
              int (decimal_value (str_int (round_count + 1))) = round_count + 1"
    by (simp add: decimal_value_str_int)
  have k1: "round_count = 0 \<longrightarrow>
              fst (loop_then_return self params tm max_rounds msgs cur round_count s) =
                Inr (''Error in tool execution round 1: '' @ m)"
    using res by (auto simp add: str_int_small)
  have k2: "round_count = 1 \<longrightarrow>
              fst (loop_then_return self params tm max_rounds msgs cur round_count s) =
                Inr (''Error in tool execution round 2: '' @ m)"
    using res by (auto simp add: str_int_small)
  have logs: "api_log (snd (loop_then_return self params tm max_rounds msgs cur round_count s)) =
             api_log s @ [resolve (heap (at_model_call tm msgs cur s)) (next_params params msgs)]"
    "tool_log (snd (loop_then_return self params tm max_rounds msgs cur round_count s)) =
             tool_log s @ tool_calls cur"
    by (simp_all add: res messages_create_simps at_model_call_simps)
  show ?thesis
    using res dec k1 k2 logs by blast
qed

theorem sequential_loop_model_call_error_witness:
  "fst (handle_sequential_tool_execution (init (failing_client ''API call failed'') ''test-model'')
          tool_use_response test_params mock_tool_manager 2 (test_state ()))
     = Inr ''Error in tool execution round 1: API call failed''
   \<and> fst (handle_sequential_tool_execution (init scripted_client ''test-model'')
          tool_use_response test_params mock_tool_manager 2
          (test_state failing_second_call_script))
     = Inr ''Error in tool execution round 2: API call failed''"
proof -
  have stop: "stop_reason tool_use_response = ''tool_use''"
    and blocks: "tool_use_blocks tool_use_response \<noteq> []"
    by (simp_all add: tool_use_blocks_def tool_use_response_def tool_block_def)
  have first: "fst (handle_sequential_tool_execution
          (init (failing_client ''API call failed'') ''test-model'')
          tool_use_response test_params mock_tool_manager 2 (test_state ()))
     = Inr ''Error in tool execution round 1: API call failed''"
  proof -
    let ?self = "init (failing_client ''API call failed'') ''test-model'' :: unit AIGenerator"
    let ?a = "fst (list_copy (messages test_params) (test_state ()))"
    let ?s0 = "snd (list_copy (messages test_params) (test_state ()))"
    have h4: "fst (messages_create ?self (next_params test_params ?a)
                    (at_model_call mock_tool_manager ?a tool_use_response ?s0))
                = Inl ''API call failed''"
      by (simp add: messages_create_simps init_def failing_client_def)
    have lt: "(0::int) < 2" by simp
    note th = sequential_loop_model_call_error [OF lt stop blocks h4]
    have "fst (loop_then_return ?self test_params mock_tool_manager 2 ?a tool_use_response 0 ?s0)
            = Inr (''Error in tool execution round 1: '' @ ''API call failed'')"
      using th by blast
    then show ?thesis
      by (simp add: handle_sequential_tool_execution_def split_beta)
  qed
  have second: "fst (handle_sequential_tool_execution (init scripted_client ''test-model'')
          tool_use_response test_params mock_tool_manager 2
          (test_state failing_second_call_script))
     = Inr ''Error in tool execution round 2: API call failed''"
  proof -
    let ?self = "init scripted_client ''test-model''"
    let ?ini = "test_state failing_second_call_script"
    let ?a = "fst (list_copy (messages test_params) ?ini)"
    let ?s0 = "snd (list_copy (messages test_params) ?ini)"
    let ?c1 = "messages_create ?self (next_params test_params ?a)
                 (at_model_call mock_tool_manager ?a tool_use_response ?s0)"
    have w0: "world (at_model_call mock_tool_manager ?a tool_use_response ?s0) =
                Inr tool_use_response # [Inl ''API call failed'']"
      by (simp add: at_model_call_simps tools_world_mock list_copy_simps test_state_def
            failing_second_call_script_def)
    obtain s1 where c1: "?c1 = (Inr tool_use_response, s1)"
      using scripted_call(1) [OF w0, of "''test-model''" "next_params test_params ?a"]
      by (cases ?c1) simp
    have ws1: "world s1 = Inl ''API call failed'' # []"
      using scripted_call(2) [OF w0, of "''test-model''" "next_params test_params ?a"] c1
      by simp
    have w1: "world (at_model_call mock_tool_manager ?a tool_use_response s1) =
                Inl ''API call failed'' # []"
      by (simp add: at_model_call_simps tools_world_mock ws1)
    have h4: "fst (messages_create ?self (next_params test_params ?a)
                    (at_model_call mock_tool_manager ?a tool_use_response s1))
                = Inl ''API call failed''"
      by (rule scripted_call(1) [OF w1])
    have lt: "(1::int) < 2" by simp
    note th = sequential_loop_model_call_error [OF lt stop blocks h4]
    have r2: "fst (loop_then_return ?self test_params mock_tool_manager 2 ?a tool_use_response
                     1 s1) = Inr (''Error in tool execution round 2: '' @ ''API call failed'')"
      using th by blast
    have step: "sequential_loop ?self test_params mock_tool_manager 2 ?a tool_use_response 0 ?s0
                = sequential_loop ?self test_params mock_tool_manager 2 ?a tool_use_response 1 s1"
      by (subst sequential_loop_call [OF _ stop blocks]) (simp_all add: c1)
    have "loop_then_return ?self test_params mock_tool_manager 2 ?a tool_use_response 0 ?s0
          = loop_then_return ?self test_params mock_tool_manager 2 ?a tool_use_response 1 s1"
      by (simp add: loop_then_return_def step)
    then show ?thesis
      using r2 by (simp add: handle_sequential_tool_execution_def split_beta)
  qed
  show ?thesis using first second by simp
qed

text \<open>
  Claim C5. Every model call of the sequential handler (the requests it adds to the log
  of model calls) is made with the parameters the handler was given in every field but
  the messages: model, temperature, max_tokens, system text, tool definitions and
  tool_choice are those of \<open>params\<close>. Its messages are the accumulated conversation:
  the messages of \<open>params\<close> followed by the two turns of every round so far (the
  assistant turn with the response of the round and the user turn with its tool
  results), so that each request extends the messages of the one before by the turns of
  one round. The requests are exactly \<open>expected_requests\<close>.
\<close>

theorem resubmitted_request_parameters:
  "\<exists>new. api_log (snd (handle_sequential_tool_execution self r params tm max_rounds s)) =
            api_log s @ new
         \<and> new = expected_requests (nat max_rounds) self tm params (heap s (messages params))
                   r (world s)
         \<and> (\<forall>req\<in>set new. same_except_messages req params
               \<and> (\<exists>extra. extra \<noteq> [] \<and> messages req = heap s (messages params) @ extra))"
proof -
  obtain new where n1:
      "api_log (snd (handle_sequential_tool_execution self r params tm max_rounds s)) =
         api_log s @ new"
    and n2: "\<forall>req\<in>set new. same_except_messages req params
               \<and> (\<exists>extra. extra \<noteq> [] \<and> messages req = heap s (messages params) @ extra)"
    using sequential_loop_requests [of self params tm max_rounds "next_addr s" r 0
            "snd (list_copy (messages params) s)"]
    by (auto simp add: handle_sequential_state list_copy_simps)
  have "new = expected_requests (nat max_rounds) self tm params (heap s (messages params))
                r (world s)"
    using n1 handle_sequential_expected_requests [of self r params tm max_rounds s] by simp
  then show ?thesis using n1 n2 by blast
qed

theorem resubmitted_request_parameters_witness:
  "\<exists>req1 req2.
      api_log (snd (handle_sequential_tool_execution
            (init (constant_client tool_use_response) ''test-model'')
            tool_use_response test_params mock_tool_manager 2 (test_state ()))) = [req1, req2]
      \<and> messages req1 =
          [\<lparr>role = ''user'', turn_content = Text ''test''\<rparr>,
           \<lparr>role = ''assistant'', turn_content = Blocks [tool_block]\<rparr>,
           \<lparr>role = ''user'', turn_content = ToolResults
              [\<lparr>result_type = ''tool_result'', tool_use_id = ''tool_1'',
                result_content = ''Mock search results''\<rparr>]\<rparr>]
      \<and> messages req2 = messages req1 @
          [\<lparr>role = ''assistant'', turn_content = Blocks [tool_block]\<rparr>,
           \<lparr>role = ''user'', turn_content = ToolResults
              [\<lparr>result_type = ''tool_result'', tool_use_id = ''tool_1'',
                result_content = ''Mock search results''\<rparr>]\<rparr>]
      \<and> model req2 = ''test-model'' \<and> temperature req2 = 0 \<and> max_tokens req2 = 800
      \<and> system req2 = ''system'' \<and> tools req2 = Some [search_tool]
      \<and> tool_choice req2 = Some [(''type'', ''auto'')]"
proof -
  let ?self = "init (constant_client tool_use_response) ''test-model'' :: unit AIGenerator"
  let ?ini = "test_state () :: unit state"
  have blocks: "tool_use_blocks tool_use_response = [tool_block]"
    by (simp add: tool_use_blocks_def tool_use_response_def tool_block_def)
  have turns: "round_turns mock_tool_manager tool_use_response w =
      [\<lparr>role = ''assistant'', turn_content = Blocks [tool_block]\<rparr>,
       \<lparr>role = ''user'', turn_content = ToolResults
          [\<lparr>result_type = ''tool_result'', tool_use_id = ''tool_1'',
            result_content = ''Mock search results''\<rparr>]\<rparr>]" for w :: unit
    by (simp add: round_turns_def blocks as_tool_result_def)
       (simp add: tool_use_response_def tool_block_def mock_tool_manager_def)
  have cl: "client ?self req w = (Inr tool_use_response, w)" for req w
    by (simp add: init_def constant_client_def)
  have stop: "stop_reason tool_use_response = ''tool_use''"
    by (simp add: tool_use_response_def)
  have ex: "expected_requests 2 ?self mock_tool_manager test_params conv
              tool_use_response w =
            [request_with test_params (conv @ round_turns mock_tool_manager tool_use_response w),
             request_with test_params
               ((conv @ round_turns mock_tool_manager tool_use_response w)
                  @ round_turns mock_tool_manager tool_use_response w)]" for conv and w :: unit
    by (simp add: numeral_2_eq_2 stop blocks cl)
  obtain new where n1: "api_log (snd (handle_sequential_tool_execution ?self tool_use_response
               test_params mock_tool_manager 2 ?ini)) = api_log ?ini @ new"
    and n2: "new = expected_requests (nat 2) ?self mock_tool_manager test_params
               (heap ?ini (messages test_params)) tool_use_response (world ?ini)"
    using resubmitted_request_parameters
            [of ?self tool_use_response test_params mock_tool_manager 2 ?ini]
    by blast
  have h0: "heap ?ini (messages test_params) = [\<lparr>role = ''user'', turn_content = Text ''test''\<rparr>]"
    "api_log ?ini = []"
    by (simp_all add: test_state_def test_params_def)
  show ?thesis
    by (simp add: n1 n2 ex h0 turns request_with_def) (simp add: test_params_def)
qed




text \<open>
  Claim C7, as stated, fails: an iteration whose current response holds no tool-use
  block may have a response with no content at all. The handler then returns the
  sentinel \<^verbatim>\<open>"No response generated"\<close>, which is no text of the response.
\<close>

theorem no_tool_calls_sentinel_counterexample:
  "stop_reason empty_tool_use_response = ''tool_use''
   \<and> tool_use_blocks empty_tool_use_response = []
   \<and> content empty_tool_use_response = []
   \<and> fst (handle_sequential_tool_execution
          (init (constant_client (text_response ''Final answer'')) ''test-model'')
          empty_tool_use_response test_params mock_tool_manager 2 (test_state ()))
       = Inr ''No response generated''"
proof -
  let ?self = "init (constant_client (text_response ''Final answer'')) ''test-model''
                 :: unit AIGenerator"
  let ?a = "fst (list_copy (messages test_params) (test_state ()))"
  let ?s0 = "snd (list_copy (messages test_params) (test_state ()))"
  have c: "(0::int) < 2" "stop_reason empty_tool_use_response = ''tool_use''"
    "tool_use_blocks empty_tool_use_response = []"
    by (simp_all add: tool_use_blocks_def empty_tool_use_response_def)
  have l: "sequential_loop ?self test_params mock_tool_manager 2 ?a empty_tool_use_response 0 ?s0 =
      (Exit empty_tool_use_response, 0 + 1,
       list_append ?a \<lparr>role = ''assistant'',
                turn_content = Blocks (content empty_tool_use_response)\<rparr> ?s0)"
    by (rule sequential_loop_break [OF c])
  have e: "content empty_tool_use_response = []"
    by (simp add: empty_tool_use_response_def)
  have h: "fst (handle_sequential_tool_execution ?self empty_tool_use_response test_params
             mock_tool_manager 2 (test_state ())) = Inr ''No response generated''"
    by (simp add: handle_sequential_tool_execution_def loop_then_return_def l split_beta
          final_return_cases(1) [OF e])
  show ?thesis using c(2,3) e h by simp
qed

text \<open>
  Claim C7, amended. In a loop iteration whose current response holds no tool-use block,
  no tool is executed, the loop is left at once by its \<^verbatim>\<open>break\<close> and no model call is
  made (both logs and the world stay as they were; only the assistant turn was appended
  to the handler's own list). The handler then answers from the current response, the
  most recent response of the model: it returns the text of its first content block
  when that block carries a text, and \<^verbatim>\<open>"No response generated"\<close> when the response
  has no content.
\<close>

theorem sequential_loop_no_tool_calls:
  assumes "round_count < max_rounds" and "stop_reason cur = ''tool_use''"
    and "tool_use_blocks cur = []"
  shows "sequential_loop self params tm max_rounds msgs cur round_count s =
           (Exit cur, round_count + 1,
            list_append msgs \<lparr>role = ''assistant'', turn_content = Blocks (content cur)\<rparr> s)
         \<and> snd (loop_then_return self params tm max_rounds msgs cur round_count s) =
            list_append msgs \<lparr>role = ''assistant'', turn_content = Blocks (content cur)\<rparr> s
         \<and> (\<forall>b bs t. content cur = b # bs \<and> block_text b = Some t \<longrightarrow>
              fst (loop_then_return self params tm max_rounds msgs cur round_count s) = Inr t)
         \<and> (content cur = [] \<longrightarrow>
              fst (loop_then_return self params tm max_rounds msgs cur round_count s) =
                Inr ''No response generated'')
         \<and> api_log (snd (loop_then_return self params tm max_rounds msgs cur round_count s)) =
             api_log s
         \<and> tool_log (snd (loop_then_return self params tm max_rounds msgs cur round_count s)) =
             tool_log s
         \<and> world (snd (loop_then_return self params tm max_rounds msgs cur round_count s)) =
             world s"
  by (auto simp add: loop_then_return_def sequential_loop_break [OF assms] list_append_simps
        final_return_cases)

theorem sequential_loop_no_tool_calls_witness:
  "fst (handle_sequential_tool_execution
          (init (constant_client tool_use_response) ''test-model'')
          toolless_response test_params mock_tool_manager 2 (test_state ()))
     = Inr ''No tool needed.''
   \<and> api_log (snd (handle_sequential_tool_execution
          (init (constant_client tool_use_response) ''test-model'')
          toolless_response test_params mock_tool_manager 2 (test_state ()))) = []
   \<and> fst (handle_sequential_tool_execution
          (init (constant_client tool_use_response) ''test-model'')
          empty_tool_use_response test_params mock_tool_manager 2 (test_state ()))
     = Inr ''No response generated''"
proof -
  let ?self = "init (constant_client tool_use_response) ''test-model'' :: unit AIGenerator"
  let ?a = "fst (list_copy (messages test_params) (test_state ()))"
  let ?s0 = "snd (list_copy (messages test_params) (test_state ()))"
  have c: "(0::int) < 2" "stop_reason toolless_response = ''tool_use''"
    "tool_use_blocks toolless_response = []"
    by (simp_all add: tool_use_blocks_def toolless_response_def text_block_def)
  have ct: "content toolless_response = text_block ''No tool needed.'' # []"
    "block_text (text_block ''No tool needed.'') = Some ''No tool needed.''"
    by (simp_all add: toolless_response_def text_block_def)
  note th = sequential_loop_no_tool_calls [OF c, of ?self test_params mock_tool_manager ?a ?s0]
  have ret: "fst (loop_then_return ?self test_params mock_tool_manager 2 ?a toolless_response
                    0 ?s0) = Inr ''No tool needed.''"
    using th ct by blast
  have lg: "api_log (snd (loop_then_return ?self test_params mock_tool_manager 2 ?a
                    toolless_response 0 ?s0)) = api_log ?s0"
    using th by blast
  have e: "(0::int) < 2" "stop_reason empty_tool_use_response = ''tool_use''"
    "tool_use_blocks empty_tool_use_response = []"
    by (simp_all add: tool_use_blocks_def empty_tool_use_response_def)
  have ce: "content empty_tool_use_response = []"
    by (simp add: empty_tool_use_response_def)
  note te = sequential_loop_no_tool_calls [OF e, of ?self test_params mock_tool_manager ?a ?s0]
  have sen: "fst (loop_then_return ?self test_params mock_tool_manager 2 ?a
                    empty_tool_use_response 0 ?s0) = Inr ''No response generated''"
    using te ce by blast
  have h: "handle_sequential_tool_execution ?self r test_params mock_tool_manager 2
             (test_state ()) =
           loop_then_return ?self test_params mock_tool_manager 2 ?a r 0 ?s0" for r
    by (simp add: handle_sequential_tool_execution_def split_beta)
  have l0: "api_log ?s0 = []"
    by (simp add: list_copy_simps test_state_def)
  show ?thesis
    by (simp add: h ret lg sen l0)
qed




text \<open>
  Claim C9. The first request a call of \<^verbatim>\<open>generate_response\<close> makes (the request it
  adds first to the log of model calls) has as messages exactly one user turn holding
  the query. Its system text is the fixed system prompt, followed by the
  previous-conversation section exactly when a non-empty history is given. It holds
  the tool definitions and the tool_choice \<^verbatim>\<open>{"type": "auto"}\<close> when a non-empty list
  of tools is given, and neither of the two otherwise. Model, temperature and
  max_tokens are those of the generator.
\<close>

theorem initial_request_parameters:
  "length (api_log s) < length (api_log (snd (generate_response self query h tools_arg tmo s)))
   \<and> messages (api_log (snd (generate_response self query h tools_arg tmo s)) ! length (api_log s))
       = [\<lparr>role = ''user'', turn_content = Text query\<rparr>]
   \<and> ((\<exists>hs. h = Some hs \<and> hs \<noteq> []) \<longrightarrow>
        system (api_log (snd (generate_response self query h tools_arg tmo s)) ! length (api_log s))
          = SYSTEM_PROMPT @ ''\<newline>\<newline>Previous conversation:\<newline>'' @ the h)
   \<and> (\<not> (\<exists>hs. h = Some hs \<and> hs \<noteq> []) \<longrightarrow>
        system (api_log (snd (generate_response self query h tools_arg tmo s)) ! length (api_log s))
          = SYSTEM_PROMPT)
   \<and> ((\<exists>ts. tools_arg = Some ts \<and> ts \<noteq> []) \<longrightarrow>
        tools (api_log (snd (generate_response self query h tools_arg tmo s)) ! length (api_log s))
          = tools_arg
        \<and> tool_choice (api_log (snd (generate_response self query h tools_arg tmo s))
             ! length (api_log s)) = Some [(''type'', ''auto'')])
   \<and> (\<not> (\<exists>ts. tools_arg = Some ts \<and> ts \<noteq> []) \<longrightarrow>
        tools (api_log (snd (generate_response self query h tools_arg tmo s)) ! length (api_log s))
          = None
        \<and> tool_choice (api_log (snd (generate_response self query h tools_arg tmo s))
             ! length (api_log s)) = None)
   \<and> model (api_log (snd (generate_response self query h tools_arg tmo s)) ! length (api_log s))
       = model (base_params self)
   \<and> temperature (api_log (snd (generate_response self query h tools_arg tmo s))
        ! length (api_log s)) = temperature (base_params self)
   \<and> max_tokens (api_log (snd (generate_response self query h tools_arg tmo s))
        ! length (api_log s)) = max_tokens (base_params self)"
proof -
  obtain more where lg: "api_log (snd (generate_response self query h tools_arg tmo s)) =
      api_log s @
        initial_params self h tools_arg [\<lparr>role = ''user'', turn_content = Text query\<rparr>] # more"
    using generate_response_first_request by blast
  have nth: "api_log (snd (generate_response self query h tools_arg tmo s)) ! length (api_log s)
       = initial_params self h tools_arg [\<lparr>role = ''user'', turn_content = Text query\<rparr>]"
    by (simp add: lg)
  have len: "length (api_log s) <
       length (api_log (snd (generate_response self query h tools_arg tmo s)))"
    by (simp add: lg)
  show ?thesis
    unfolding nth using len
    by (auto simp add: initial_params_def system_content_def Let_def split: option.splits)
qed

theorem initial_request_parameters_witness:
  "system (api_log (snd (generate_response
       (init (constant_client (text_response ''Answer'')) ''test-model'')
       ''What is machine learning?'' (Some ''User: hi'') (Some [search_tool])
       (Some mock_tool_manager) (test_state ()))) ! 0)
     = SYSTEM_PROMPT @ ''\<newline>\<newline>Previous conversation:\<newline>User: hi''
   \<and> tools (api_log (snd (generate_response
       (init (constant_client (text_response ''Answer'')) ''test-model'')
       ''What is machine learning?'' (Some ''User: hi'') (Some [search_tool])
       (Some mock_tool_manager) (test_state ()))) ! 0) = Some [search_tool]
   \<and> tool_choice (api_log (snd (generate_response
       (init (constant_client (text_response ''Answer'')) ''test-model'')
       ''What is machine learning?'' (Some ''User: hi'') (Some [search_tool])
       (Some mock_tool_manager) (test_state ()))) ! 0) = Some [(''type'', ''auto'')]
   \<and> system (api_log (snd (generate_response
       (init (constant_client (text_response ''Answer'')) ''test-model'')
       ''What is machine learning?'' None None None (test_state ()))) ! 0) = SYSTEM_PROMPT
   \<and> tools (api_log (snd (generate_response
       (init (constant_client (text_response ''Answer'')) ''test-model'')
       ''What is machine learning?'' None None None (test_state ()))) ! 0) = None"
  using initial_request_parameters
          [of "test_state ()" "init (constant_client (text_response ''Answer'')) ''test-model''"
              "''What is machine learning?''" "Some ''User: hi''" "Some [search_tool]"
              "Some mock_tool_manager"]
        initial_request_parameters
          [of "test_state ()" "init (constant_client (text_response ''Answer'')) ''test-model''"
              "''What is machine learning?''" None None None]
  by (simp add: test_state_def)

text \<open>
  Claim C10. Neither handler changes the message list its \<open>params\<close> refer to (a list
  that exists when the handler is called): each appends to its own copy only. After
  \<^verbatim>\<open>generate_response\<close>, whichever path it took, the list it built for the initial
  request still holds exactly the one user turn with the query.
\<close>

theorem caller_messages_not_mutated:
  "(messages params < next_addr s \<longrightarrow>
      heap (snd (handle_sequential_tool_execution self r params tm max_rounds s))
        (messages params) = heap s (messages params))
   \<and> (messages params < next_addr s \<longrightarrow>
      heap (snd (handle_tool_execution self r params tm s)) (messages params) =
        heap s (messages params))
   \<and> heap (snd (generate_response self query h tools_arg tmo s)) (next_addr s) =
        [\<lparr>role = ''user'', turn_content = Text query\<rparr>]"
  by (simp add: handle_sequential_heap handle_tool_execution_heap generate_response_heap)

theorem caller_messages_not_mutated_witness:
  "heap (snd (handle_sequential_tool_execution
            (init (constant_client (text_response ''Final answer'')) ''test-model'')
            tool_use_response test_params mock_tool_manager 2 (test_state ()))) 0
     = [\<lparr>role = ''user'', turn_content = Text ''test''\<rparr>]
   \<and> heap (snd (handle_tool_execution
            (init (constant_client (text_response ''Final answer'')) ''test-model'')
            tool_use_response test_params mock_tool_manager (test_state ()))) 0
     = [\<lparr>role = ''user'', turn_content = Text ''test''\<rparr>]"
  using caller_messages_not_mutated
          [of test_params "test_state ()"
              "init (constant_client (text_response ''Final answer'')) ''test-model''"
              tool_use_response mock_tool_manager 2]
  by (simp add: test_params_def test_state_def)

end
